theory Spec2Isabelle
  imports Main
begin

section \<open>Python values as the client sees them\<close>

text \<open>
  The client (\<^verbatim>\<open>flow_graphengine.py\<close>) is dynamically typed: credentials, identifiers
  and everything read from a service response are Python objects of whatever type the
  caller or the server supplied. They are modelled by one datatype, the values that
  \<^verbatim>\<open>response.json()\<close> can produce. A \<open>JObj\<close> holds the items of a Python dict in
  insertion order (the keys of a dict are distinct). Numbers are integers; floating point
  numbers are outside the model. A string is a list of characters with code points below
  256.
\<close>

datatype json =
    JNull
  | JBool bool
  | JNum int
  | JStr string
  | JArr "json list"
  | JObj "(string \<times> json) list"

text \<open>The exceptions that the modelled code paths can raise.\<close>

datatype error =
    AssertionError
  | AttributeError
  | KeyError json
  | IndexError
  | TypeError
  | ValueError
  | OverflowError
  | JSONDecodeError
  | RequestException
  | OSError string

text \<open>Truth value of an object, as \<^verbatim>\<open>assert(x)\<close> tests it.\<close>

fun py_truthy :: "json \<Rightarrow> bool" where
  "py_truthy JNull = False"
| "py_truthy (JBool b) = b"
| "py_truthy (JNum n) = (n \<noteq> 0)"
| "py_truthy (JStr s) = (s \<noteq> [])"
| "py_truthy (JArr xs) = (xs \<noteq> [])"
| "py_truthy (JObj kvs) = (kvs \<noteq> [])"

text \<open>\<^verbatim>\<open>x[key]\<close> with a string key: only a dict accepts it.\<close>

fun py_getitem :: "json \<Rightarrow> string \<Rightarrow> error + json" where
  "py_getitem (JObj kvs) k =
     (case map_of kvs k of None \<Rightarrow> Inl (KeyError (JStr k)) | Some v \<Rightarrow> Inr v)"
| "py_getitem _ k = Inl TypeError"

text \<open>
  \<^verbatim>\<open>x[0]\<close>: the first element of a list, the first character of a string, a
  \<^verbatim>\<open>KeyError\<close> on a dict (whose keys are all strings), a \<^verbatim>\<open>TypeError\<close> otherwise.
\<close>

fun py_getitem0 :: "json \<Rightarrow> error + json" where
  "py_getitem0 (JArr []) = Inl IndexError"
| "py_getitem0 (JArr (x # xs)) = Inr x"
| "py_getitem0 (JStr []) = Inl IndexError"
| "py_getitem0 (JStr (c # cs)) = Inr (JStr [c])"
| "py_getitem0 (JObj kvs) = Inl (KeyError (JNum 0))"
| "py_getitem0 _ = Inl TypeError"

text \<open>
  \<^verbatim>\<open>for x in v\<close>: the elements of a list, the keys of a dict, the characters of a
  string; other objects are not iterable.
\<close>

fun py_iter :: "json \<Rightarrow> error + json list" where
  "py_iter (JArr xs) = Inr xs"
| "py_iter (JObj kvs) = Inr (map (\<lambda>kv. JStr (fst kv)) kvs)"
| "py_iter (JStr s) = Inr (map (\<lambda>c. JStr [c]) s)"
| "py_iter _ = Inl TypeError"

subsection \<open>Formatting: \<^verbatim>\<open>str\<close> and \<^verbatim>\<open>repr\<close>\<close>

text \<open>
  An f-string hole \<^verbatim>\<open>{x}\<close> inserts \<^verbatim>\<open>str(x)\<close>: a string unchanged, \<^verbatim>\<open>None\<close>,
  \<^verbatim>\<open>True\<close>, \<^verbatim>\<open>False\<close>, an integer in decimal, and a list or dict as the
  \<^verbatim>\<open>repr\<close> of its elements. The \<^verbatim>\<open>repr\<close> of a string escapes the backslash, the
  quote in use and every character that is not printable (control characters, and the
  code points 127 to 160 and 173).
\<close>

definition digit_char :: "nat \<Rightarrow> char" where
  "digit_char n = ''0123456789abcdef'' ! n"

fun str_nat :: "nat \<Rightarrow> string" where
  "str_nat n = (if n < 10 then [digit_char n] else str_nat (n div 10) @ [digit_char (n mod 10)])"

declare str_nat.simps [simp del]

definition str_int :: "int \<Rightarrow> string" where
  "str_int i = (if i < 0 then CHR ''-'' # str_nat (nat (- i)) else str_nat (nat i))"

definition repr_char :: "char \<Rightarrow> char \<Rightarrow> string" where
  "repr_char q c =
     (if c = CHR 0x5C then [CHR 0x5C, CHR 0x5C]
      else if c = q then [CHR 0x5C, q]
      else if c = CHR 0x0A then [CHR 0x5C, CHR ''n'']
      else if c = CHR 0x0D then [CHR 0x5C, CHR ''r'']
      else if c = CHR 0x09 then [CHR 0x5C, CHR ''t'']
      else if (of_char c :: nat) < 32 \<or> (127 \<le> (of_char c :: nat) \<and> (of_char c :: nat) \<le> 160)
              \<or> (of_char c :: nat) = 173
        then [CHR 0x5C, CHR ''x'', digit_char (of_char c div 16), digit_char (of_char c mod 16)]
      else [c])"

definition repr_str :: "string \<Rightarrow> string" where
  "repr_str s =
     (let q = (if CHR 0x27 \<in> set s \<and> CHR 0x22 \<notin> set s then CHR 0x22 else CHR 0x27)
      in q # concat (map (repr_char q) s) @ [q])"

fun join :: "string \<Rightarrow> string list \<Rightarrow> string" where
  "join sep [] = []"
| "join sep [x] = x"
| "join sep (x # y # ys) = x @ sep @ join sep (y # ys)"

fun py_repr :: "json \<Rightarrow> string" where
  "py_repr JNull = ''None''"
| "py_repr (JBool b) = (if b then ''True'' else ''False'')"
| "py_repr (JNum i) = str_int i"
| "py_repr (JStr s) = repr_str s"
| "py_repr (JArr xs) = ''['' @ join '', '' (map py_repr xs) @ '']''"
| "py_repr (JObj kvs) =
     ''{'' @ join '', '' (map (\<lambda>kv. repr_str (fst kv) @ '': '' @ py_repr (snd kv)) kvs) @ ''}''"

fun py_str :: "json \<Rightarrow> string" where
  "py_str (JStr s) = s"
| "py_str v = py_repr v"

text \<open>\<^verbatim>\<open>os.path.basename\<close> (POSIX): what follows the last slash; a string is required.\<close>

definition basename :: "string \<Rightarrow> string" where
  "basename p = rev (takeWhile (\<lambda>c. c \<noteq> CHR ''/'') (rev p))"

fun os_path_basename :: "json \<Rightarrow> error + string" where
  "os_path_basename (JStr p) = Inr (basename p)"
| "os_path_basename _ = Inl TypeError"

section \<open>The \<^verbatim>\<open>requests\<close> library and the outside world\<close>

datatype verb = GET | POST | PUT

text \<open>
  The body argument of a call: none, the form fields of \<^verbatim>\<open>data={...}\<close>, the document of
  \<^verbatim>\<open>json=...\<close>, or the raw bytes of \<^verbatim>\<open>data=f.read()\<close>.
\<close>

datatype payload = NoBody | Form "(string \<times> json) list" | JsonBody json | Raw string

record request =
  meth :: verb
  req_url :: string
  req_headers :: "(string \<times> string) list"
  body :: payload
  stream :: bool

text \<open>
  A response: its status code, its headers, the document that \<^verbatim>\<open>response.json()\<close>
  parses from its body (\<open>None\<close> when the body is not JSON) and the bytes of the body.
  The body is there as a whole once the call has answered: a connection lost in the
  middle of a streamed body is not modelled.
\<close>

record response =
  status_code :: int
  headers :: "(string \<times> string) list"
  json_body :: "json option"
  content :: string

text \<open>A call into \<^verbatim>\<open>requests\<close> either raises (no connection, unusable URL) or answers.\<close>

datatype reply = NetError | Response response

text \<open>What the client does to the outside world, in order.\<close>

datatype event = Sent request | Printed string | Slept int

text \<open>
  The environment is a parameter of the model: \<open>net\<close> gives the reply to a request after
  the events so far (so the service may answer the same request differently as time goes
  by), \<open>can_write\<close> tells whether \<^verbatim>\<open>open(path, 'wb')\<close> succeeds.
\<close>

record env =
  net :: "event list \<Rightarrow> request \<Rightarrow> reply"
  can_write :: "string \<Rightarrow> bool"

text \<open>
  The state: the four attributes of the \<^verbatim>\<open>FlowGraphEngineServer\<close> object (\<open>None\<close>
  while an attribute is not yet set), the events so far and the local files.
\<close>

record state =
  client_id :: "json option"
  client_secret :: "json option"
  oauth_token :: "json option"
  queue_id :: "json option"
  trace :: "event list"
  files :: "string \<rightharpoonup> string"

text \<open>A statement or expression of the program: it raises or yields a value, and changes the state.\<close>

type_synonym 'a io = "state \<Rightarrow> (error + 'a) \<times> state"

definition ret :: "'a \<Rightarrow> 'a io" where
  "ret x = (\<lambda>s. (Inr x, s))"

definition lift :: "error + 'a \<Rightarrow> 'a io" where
  "lift r = (\<lambda>s. (r, s))"

definition bind :: "'a io \<Rightarrow> ('a \<Rightarrow> 'b io) \<Rightarrow> 'b io" where
  "bind m f = (\<lambda>s. case m s of (Inl e, s') \<Rightarrow> (Inl e, s') | (Inr x, s') \<Rightarrow> f x s')"

text \<open>Reading an attribute of \<^verbatim>\<open>self\<close>.\<close>

definition attr :: "(state \<Rightarrow> json option) \<Rightarrow> json io" where
  "attr f = (\<lambda>s. case f s of None \<Rightarrow> (Inl AttributeError, s) | Some v \<Rightarrow> (Inr v, s))"

definition send :: "env \<Rightarrow> request \<Rightarrow> response io" where
  "send E rq = (\<lambda>s.
     let s' = s\<lparr>trace := trace s @ [Sent rq]\<rparr>
     in case net E (trace s) rq of
          NetError \<Rightarrow> (Inl RequestException, s')
        | Response r \<Rightarrow> (Inr r, s'))"

definition requests_get :: "env \<Rightarrow> string \<Rightarrow> (string \<times> string) list \<Rightarrow> bool \<Rightarrow> response io" where
  "requests_get E u hs st =
     send E \<lparr>meth = GET, req_url = u, req_headers = hs, body = NoBody, stream = st\<rparr>"

definition requests_post :: "env \<Rightarrow> string \<Rightarrow> payload \<Rightarrow> (string \<times> string) list \<Rightarrow> response io" where
  "requests_post E u b hs =
     send E \<lparr>meth = POST, req_url = u, req_headers = hs, body = b, stream = False\<rparr>"

definition requests_put :: "env \<Rightarrow> string \<Rightarrow> string \<Rightarrow> response io" where
  "requests_put E u bytes =
     send E \<lparr>meth = PUT, req_url = u, req_headers = [], body = Raw bytes, stream = False\<rparr>"

definition response_json :: "response \<Rightarrow> error + json" where
  "response_json r = (case json_body r of None \<Rightarrow> Inl JSONDecodeError | Some j \<Rightarrow> Inr j)"

text \<open>\<^verbatim>\<open>response.headers[name]\<close>: header names compare without regard to case.\<close>

definition lower :: "char \<Rightarrow> char" where
  "lower c =
     (case map_of (zip ''ABCDEFGHIJKLMNOPQRSTUVWXYZ'' ''abcdefghijklmnopqrstuvwxyz'') c of
        None \<Rightarrow> c
      | Some d \<Rightarrow> d)"

definition header :: "response \<Rightarrow> string \<Rightarrow> error + string" where
  "header r name =
     (case map_of (map (\<lambda>kv. (map lower (fst kv), snd kv)) (headers r)) (map lower name) of
        None \<Rightarrow> Inl (KeyError (JStr name))
      | Some v \<Rightarrow> Inr v)"

text \<open>
  \<^verbatim>\<open>response.iter_content(chunk_size)\<close>: the body in pieces of at most \<open>n\<close> bytes.
  The only call site passes the default \<^verbatim>\<open>chunk_size=8192\<close>; for \<open>n = 0\<close> the model
  yields no piece.
\<close>

fun iter_content :: "nat \<Rightarrow> string \<Rightarrow> string list" where
  "iter_content n bs =
     (if n = 0 \<or> bs = [] then [] else take n bs # iter_content n (drop n bs))"

declare iter_content.simps [simp del]

text \<open>
  \<^verbatim>\<open>print\<close> and \<^verbatim>\<open>time.sleep\<close>, called with a whole number of seconds.
  \<^verbatim>\<open>time.sleep\<close> first turns the seconds into nanoseconds in a signed 64-bit integer
  and raises \<^verbatim>\<open>OverflowError\<close> when they do not fit, then raises \<^verbatim>\<open>ValueError\<close> on a
  negative interval; \<open>max_sleep\<close> is the largest number of seconds that fits.
\<close>

definition print :: "string \<Rightarrow> unit io" where
  "print line = (\<lambda>s. (Inr (), s\<lparr>trace := trace s @ [Printed line]\<rparr>))"

definition max_sleep :: int where
  "max_sleep = 9223372036"

definition time_sleep :: "int \<Rightarrow> unit io" where
  "time_sleep secs = (\<lambda>s.
     if secs < - max_sleep \<or> max_sleep < secs then (Inl OverflowError, s)
     else if secs < 0 then (Inl ValueError, s)
     else (Inr (), s\<lparr>trace := trace s @ [Slept secs]\<rparr>))"

text \<open>Reading a whole file (\<^verbatim>\<open>open(path, 'rb')\<close>, \<^verbatim>\<open>f.read()\<close>).\<close>

definition read_file :: "string \<Rightarrow> string io" where
  "read_file path = (\<lambda>s.
     case files s path of None \<Rightarrow> (Inl (OSError path), s) | Some bytes \<Rightarrow> (Inr bytes, s))"

text \<open>
  \<^verbatim>\<open>open(path, 'wb')\<close> followed by one \<^verbatim>\<open>f.write\<close> per chunk: the file is emptied
  when it is opened, and each chunk is appended.
\<close>

definition write_chunks :: "env \<Rightarrow> string \<Rightarrow> string list \<Rightarrow> unit io" where
  "write_chunks E path chunks = (\<lambda>s.
     if can_write E path
     then (Inr (), s\<lparr>files := (files s)(path \<mapsto> foldl (@) [] chunks)\<rparr>)
     else (Inl (OSError path), s))"

section \<open>The client: class \<^verbatim>\<open>FlowGraphEngineServer\<close>\<close>

text \<open>
  Each method keeps its name, without the leading underscores (\<^verbatim>\<open>__init__\<close> is
  \<open>init\<close>), and evaluates its sub-expressions in the order Python does.
\<close>

definition bearer :: "json \<Rightarrow> (string \<times> string) list" where
  "bearer tok = [(''Authorization'', ''Bearer '' @ py_str tok)]"

definition api :: string where
  "api = ''https://developer.api.autodesk.com''"

definition generate_oauth_token :: "env \<Rightarrow> json io" where
  "generate_oauth_token E =
     bind (attr client_id) (\<lambda>cid.
     bind (attr client_secret) (\<lambda>sec.
     bind (requests_post E (api @ ''/authentication/v2/token'')
            (Form [(''scope'', JStr ''data:read data:create data:write code:all''),
                   (''grant_type'', JStr ''client_credentials''),
                   (''client_id'', cid),
                   (''client_secret'', sec)])
            [(''Content-Type'', ''application/x-www-form-urlencoded'')]) (\<lambda>response.
     bind (lift (response_json response)) (\<lambda>j.
     lift (py_getitem j ''access_token'')))))"

text \<open>
  \<^verbatim>\<open>__init__\<close>: the two credentials are stored, both are asserted, the token is
  fetched and stored, and the queue id is stored last.
\<close>

definition init :: "env \<Rightarrow> json \<Rightarrow> json \<Rightarrow> json \<Rightarrow> unit io" where
  "init E cid sec qid = (\<lambda>s0.
     let s1 = s0\<lparr>client_id := Some cid\<rparr>;
         s2 = s1\<lparr>client_secret := Some sec\<rparr>
     in if \<not> py_truthy cid then (Inl AssertionError, s2)
        else if \<not> py_truthy sec then (Inl AssertionError, s2)
        else (case generate_oauth_token E s2 of
                (Inl e, s3) \<Rightarrow> (Inl e, s3)
              | (Inr tok, s3) \<Rightarrow>
                  (Inr (), s3\<lparr>oauth_token := Some tok, queue_id := Some qid\<rparr>)))"

definition get_resource_upload_url :: "env \<Rightarrow> json \<Rightarrow> json \<Rightarrow> json io" where
  "get_resource_upload_url E space_id resource_id =
     bind (attr oauth_token) (\<lambda>tok.
     bind (requests_get E
            (api @ ''/flow/storage/v1/spaces/'' @ py_str space_id @ ''/resources/''
               @ py_str resource_id @ ''/upload-urls'')
            (bearer tok) False) (\<lambda>response.
     lift (response_json response)))"

definition upload_to_signed_url :: "env \<Rightarrow> json \<Rightarrow> string \<Rightarrow> string io" where
  "upload_to_signed_url E signedUrl path_to_file =
     bind (read_file path_to_file) (\<lambda>bytes.
     bind (requests_put E (py_str signedUrl) bytes) (\<lambda>response.
     lift (header response ''etag'')))"

definition complete_upload :: "env \<Rightarrow> json \<Rightarrow> json \<Rightarrow> json \<Rightarrow> string \<Rightarrow> json io" where
  "complete_upload E space_id resource_id upload_id etag =
     (let u = api @ ''/flow/storage/v1/spaces/'' @ py_str space_id @ ''/uploads:complete'';
          json_data = JObj [(''resourceId'', resource_id),
                            (''uploadId'', upload_id),
                            (''parts'', JArr [JObj [(''partId'', JNum 1), (''etag'', JStr etag)]])]
      in bind (attr oauth_token) (\<lambda>tok.
         bind (requests_post E u (JsonBody json_data) (bearer tok)) (\<lambda>response.
         bind (lift (response_json response)) (\<lambda>j.
         lift (py_getitem j ''urn'')))))"

definition upload_file :: "env \<Rightarrow> string \<Rightarrow> json \<Rightarrow> json \<Rightarrow> json io" where
  "upload_file E path_to_file space_id resource_id =
     bind (get_resource_upload_url E space_id resource_id) (\<lambda>getInputFileUploadUrlResponse.
     bind (lift (py_getitem getInputFileUploadUrlResponse ''urls'')) (\<lambda>urls.
     bind (lift (py_getitem0 urls)) (\<lambda>url0.
     bind (lift (py_getitem url0 ''url'')) (\<lambda>signedUrl.
     bind (upload_to_signed_url E signedUrl path_to_file) (\<lambda>inputFileEtag.
     bind (lift (py_getitem getInputFileUploadUrlResponse ''upload'')) (\<lambda>upload.
     bind (lift (py_getitem upload ''resourceId'')) (\<lambda>rid.
     bind (lift (py_getitem getInputFileUploadUrlResponse ''upload'')) (\<lambda>upload'.
     bind (lift (py_getitem upload' ''id'')) (\<lambda>uid.
     complete_upload E space_id rid uid inputFileEtag)))))))))"

definition list_jobs :: "env \<Rightarrow> json io" where
  "list_jobs E =
     bind (attr queue_id) (\<lambda>q.
     bind (attr oauth_token) (\<lambda>tok.
     bind (requests_get E (api @ ''/flow/compute/v1/queues/'' @ py_str q @ ''/jobs'')
            (bearer tok) False) (\<lambda>response.
     bind (lift (response_json response)) (\<lambda>j.
     lift (py_getitem j ''results'')))))"

definition submit_job :: "env \<Rightarrow> json \<Rightarrow> json io" where
  "submit_job E job_json =
     bind (attr queue_id) (\<lambda>q.
     bind (attr oauth_token) (\<lambda>tok.
     bind (requests_post E (api @ ''/flow/compute/v1/queues/'' @ py_str q @ ''/jobs'')
            (JsonBody job_json) (bearer tok)) (\<lambda>response.
     bind (lift (response_json response)) (\<lambda>j.
     lift (py_getitem j ''id'')))))"

definition get_job_data :: "env \<Rightarrow> json \<Rightarrow> json io" where
  "get_job_data E job_id =
     bind (attr queue_id) (\<lambda>q.
     bind (attr oauth_token) (\<lambda>tok.
     bind (requests_get E
            (api @ ''/flow/compute/v1/queues/'' @ py_str q @ ''/jobs/'' @ py_str job_id)
            (bearer tok) False) (\<lambda>response.
     lift (response_json response))))"

text \<open>
  The body of the \<^verbatim>\<open>while True\<close> loop of \<^verbatim>\<open>wait_for_job_to_complete\<close>: it either
  leaves the loop (an exception, or \<^verbatim>\<open>break\<close> with the job record) or goes round
  again.
\<close>

definition terminal :: "json list" where
  "terminal = [JStr ''SUCCEEDED'', JStr ''FAILED'', JStr ''CANCELED'']"

datatype 'a round = Leave "(error + 'a) \<times> state" | Again state

definition wait_body :: "env \<Rightarrow> json \<Rightarrow> int \<Rightarrow> state \<Rightarrow> json round" where
  "wait_body E job_id sleep_seconds s =
     (case get_job_data E job_id s of
        (Inl e, s1) \<Rightarrow> Leave (Inl e, s1)
      | (Inr job, s1) \<Rightarrow>
          (case py_getitem job ''status'' of
             Inl e \<Rightarrow> Leave (Inl e, s1)
           | Inr status \<Rightarrow>
               (case print (''Job status: '' @ py_str status) s1 of
                  (Inl e, s2) \<Rightarrow> Leave (Inl e, s2)
                | (Inr _, s2) \<Rightarrow>
                    if status \<in> set terminal then Leave (Inr job, s2)
                    else (case time_sleep sleep_seconds s2 of
                            (Inl e, s3) \<Rightarrow> Leave (Inl e, s3)
                          | (Inr _, s3) \<Rightarrow> Again s3))))"

text \<open>The loop may run forever: the result is \<open>None\<close> then.\<close>

partial_function (option)
  wait_for_job_to_complete :: "env \<Rightarrow> json \<Rightarrow> int \<Rightarrow> state \<Rightarrow> ((error + json) \<times> state) option"
where
  "wait_for_job_to_complete E job_id sleep_seconds s =
     (case wait_body E job_id sleep_seconds s of
        Leave r \<Rightarrow> Some r
      | Again s' \<Rightarrow> wait_for_job_to_complete E job_id sleep_seconds s')"

definition get_log_data :: "env \<Rightarrow> json \<Rightarrow> json io" where
  "get_log_data E job_id =
     bind (attr queue_id) (\<lambda>q.
     bind (attr oauth_token) (\<lambda>tok.
     bind (requests_get E
            (api @ ''/flow/compute/v1/queues/'' @ py_str q @ ''/jobs/'' @ py_str job_id @ ''/logs'')
            (bearer tok) False) (\<lambda>response.
     lift (response_json response))))"

definition get_output_data :: "env \<Rightarrow> json \<Rightarrow> json io" where
  "get_output_data E job_id =
     bind (attr queue_id) (\<lambda>q.
     bind (attr oauth_token) (\<lambda>tok.
     bind (requests_get E
            (api @ ''/flow/compute/v1/queues/'' @ py_str q @ ''/jobs/'' @ py_str job_id @ ''/outputs'')
            (bearer tok) False) (\<lambda>response.
     lift (response_json response))))"

definition get_download_url_for_resource :: "env \<Rightarrow> json \<Rightarrow> json \<Rightarrow> json io" where
  "get_download_url_for_resource E space_id resourceId =
     bind (attr oauth_token) (\<lambda>tok.
     bind (requests_get E
            (api @ ''/flow/storage/v1/spaces/'' @ py_str space_id @ ''/resources/''
               @ py_str resourceId @ ''/download-url'')
            (bearer tok) False) (\<lambda>response.
     lift (response_json response)))"

definition download_file_from_signed_url :: "env \<Rightarrow> json \<Rightarrow> string \<Rightarrow> nat \<Rightarrow> unit io" where
  "download_file_from_signed_url E signedUrl destination chunk_size =
     bind (requests_get E (py_str signedUrl) [] True) (\<lambda>response.
     if status_code response = 200
     then write_chunks E destination (iter_content chunk_size (content response))
     else ret ())"

definition download_file :: "env \<Rightarrow> json \<Rightarrow> json \<Rightarrow> string \<Rightarrow> unit io" where
  "download_file E space_id resource_id destination_path =
     bind (get_download_url_for_resource E space_id resource_id) (\<lambda>signedUrl.
     bind (lift (py_getitem signedUrl ''url'')) (\<lambda>u.
     download_file_from_signed_url E u destination_path 8192))"

text \<open>
  The two download loops. \<open>pre\<close> is what the loop puts between the target directory
  and the basename: \<^verbatim>\<open>/joblog_\<close> for logs, \<^verbatim>\<open>/\<close> for outputs.
\<close>

fun download_each :: "env \<Rightarrow> string \<Rightarrow> string \<Rightarrow> json list \<Rightarrow> string list \<Rightarrow> string list io" where
  "download_each E dir pre [] filepaths = ret filepaths"
| "download_each E dir pre (record # records) filepaths =
     bind (lift (py_getitem record ''path'')) (\<lambda>p.
     bind (lift (os_path_basename p)) (\<lambda>b.
     bind (lift (py_getitem record ''spaceId'')) (\<lambda>space_id.
     bind (lift (py_getitem record ''resourceId'')) (\<lambda>resource_id.
     bind (download_file E space_id resource_id (dir @ pre @ b)) (\<lambda>downloadUrl.
     download_each E dir pre records (filepaths @ [dir @ pre @ b]))))))"

definition download_job_logs :: "env \<Rightarrow> json \<Rightarrow> string \<Rightarrow> string list io" where
  "download_job_logs E job_id logdir =
     bind (get_log_data E job_id) (\<lambda>logs.
     bind (lift (py_getitem logs ''results'')) (\<lambda>results.
     bind (lift (py_iter results)) (\<lambda>records.
     download_each E logdir ''/joblog_'' records [])))"

definition download_job_outputs :: "env \<Rightarrow> json \<Rightarrow> string \<Rightarrow> string list io" where
  "download_job_outputs E job_id outdir =
     bind (get_output_data E job_id) (\<lambda>outputs.
     bind (lift (py_getitem outputs ''results'')) (\<lambda>results.
     bind (lift (py_iter results)) (\<lambda>records.
     download_each E outdir ''/'' records [])))"

section \<open>The life of a client object\<close>

text \<open>
  A caller holds one client object and calls its public methods in any order, each with
  any arguments; it may catch an exception and go on. \<open>run\<close> is one such call,
  \<open>run_all\<close> a sequence of them (\<open>None\<close> when a call never returns).
\<close>

datatype call =
    Upload_file string json json
  | List_jobs
  | Submit_job json
  | Get_job_data json
  | Wait_for_job_to_complete json int
  | Download_file json json string
  | Download_job_logs json string
  | Download_job_outputs json string

datatype retval = Unit | Val json | Paths "string list"

definition returning :: "('a \<Rightarrow> retval) \<Rightarrow> (error + 'a) \<times> state \<Rightarrow> (error + retval) \<times> state" where
  "returning f r = (map_sum id f (fst r), snd r)"

fun run :: "env \<Rightarrow> call \<Rightarrow> state \<Rightarrow> ((error + retval) \<times> state) option" where
  "run E (Upload_file path space_id resource_id) s =
     Some (returning Val (upload_file E path space_id resource_id s))"
| "run E List_jobs s = Some (returning Val (list_jobs E s))"
| "run E (Submit_job job_json) s = Some (returning Val (submit_job E job_json s))"
| "run E (Get_job_data job_id) s = Some (returning Val (get_job_data E job_id s))"
| "run E (Wait_for_job_to_complete job_id sleep_seconds) s =
     map_option (returning Val) (wait_for_job_to_complete E job_id sleep_seconds s)"
| "run E (Download_file space_id resource_id destination_path) s =
     Some (returning (\<lambda>_. Unit) (download_file E space_id resource_id destination_path s))"
| "run E (Download_job_logs job_id logdir) s =
     Some (returning Paths (download_job_logs E job_id logdir s))"
| "run E (Download_job_outputs job_id outdir) s =
     Some (returning Paths (download_job_outputs E job_id outdir s))"

fun run_all :: "env \<Rightarrow> call list \<Rightarrow> state \<Rightarrow> state option" where
  "run_all E [] s = Some s"
| "run_all E (c # cs) s =
     (case run E c s of None \<Rightarrow> None | Some (r, s') \<Rightarrow> run_all E cs s')"

text \<open>A new object has no attribute yet.\<close>

definition new_object :: "event list \<Rightarrow> (string \<rightharpoonup> string) \<Rightarrow> state" where
  "new_object tr fs =
     \<lparr>client_id = None, client_secret = None, oauth_token = None, queue_id = None,
      trace = tr, files = fs\<rparr>"

definition self_attrs :: "state \<Rightarrow> json option \<times> json option \<times> json option \<times> json option" where
  "self_attrs s = (client_id s, client_secret s, oauth_token s, queue_id s)"

section \<open>Notions used to state the properties\<close>

text \<open>The request that \<^verbatim>\<open>_generate_oauth_token\<close> makes.\<close>

definition auth_request :: "json \<Rightarrow> json \<Rightarrow> request" where
  "auth_request cid sec =
     \<lparr>meth = POST, req_url = api @ ''/authentication/v2/token'',
      req_headers = [(''Content-Type'', ''application/x-www-form-urlencoded'')],
      body = Form [(''scope'', JStr ''data:read data:create data:write code:all''),
                   (''grant_type'', JStr ''client_credentials''),
                   (''client_id'', cid),
                   (''client_secret'', sec)],
      stream = False\<rparr>"

text \<open>The three requests of an upload.\<close>

definition upload_urls_request :: "json \<Rightarrow> json \<Rightarrow> json \<Rightarrow> request" where
  "upload_urls_request tok space_id resource_id =
     \<lparr>meth = GET,
      req_url = api @ ''/flow/storage/v1/spaces/'' @ py_str space_id @ ''/resources/''
              @ py_str resource_id @ ''/upload-urls'',
      req_headers = [(''Authorization'', ''Bearer '' @ py_str tok)],
      body = NoBody, stream = False\<rparr>"

definition put_request :: "json \<Rightarrow> string \<Rightarrow> request" where
  "put_request signedUrl bytes =
     \<lparr>meth = PUT, req_url = py_str signedUrl, req_headers = [], body = Raw bytes, stream = False\<rparr>"

definition complete_request :: "json \<Rightarrow> json \<Rightarrow> json \<Rightarrow> json \<Rightarrow> string \<Rightarrow> request" where
  "complete_request tok space_id rid uid etag =
     \<lparr>meth = POST,
      req_url = api @ ''/flow/storage/v1/spaces/'' @ py_str space_id @ ''/uploads:complete'',
      req_headers = [(''Authorization'', ''Bearer '' @ py_str tok)],
      body = JsonBody (JObj [(''resourceId'', rid), (''uploadId'', uid),
               (''parts'', JArr [JObj [(''partId'', JNum 1), (''etag'', JStr etag)]])]),
      stream = False\<rparr>"

text \<open>The streamed download of a signed URL.\<close>

definition signed_get :: "json \<Rightarrow> request" where
  "signed_get signedUrl =
     \<lparr>meth = GET, req_url = py_str signedUrl, req_headers = [], body = NoBody, stream = True\<rparr>"

text \<open>
  A direct transfer to or from a signed URL: it carries no header at all, and is either
  the \<^verbatim>\<open>PUT\<close> of raw bytes or the streamed \<^verbatim>\<open>GET\<close>.
\<close>

definition signed_transfer :: "request \<Rightarrow> bool" where
  "signed_transfer rq \<longleftrightarrow>
     req_headers rq = [] \<and>
     ((meth rq = PUT \<and> (case body rq of Raw _ \<Rightarrow> True | _ \<Rightarrow> False)) \<or>
      (meth rq = GET \<and> stream rq))"

text \<open>The requests among a list of events.\<close>

fun requests_of :: "event list \<Rightarrow> request list" where
  "requests_of [] = []"
| "requests_of (Sent rq # evs) = rq # requests_of evs"
| "requests_of (_ # evs) = requests_of evs"




text \<open>The intervals that \<^verbatim>\<open>time.sleep\<close> accepts.\<close>

definition sleepable :: "int \<Rightarrow> bool" where
  "sleepable secs \<longleftrightarrow> 0 \<le> secs \<and> secs \<le> max_sleep"



text \<open>The local path that the download loops give a record.\<close>

definition local_path :: "string \<Rightarrow> string \<Rightarrow> json \<Rightarrow> string" where
  "local_path dir pre record =
     (case py_getitem record ''path'' of
        Inr (JStr p) \<Rightarrow> dir @ pre @ basename p
      | _ \<Rightarrow> [])"

text \<open>
  The events that happened between state \<open>s\<close> and a later state \<open>s'\<close>, and the test
  that \<open>s'\<close> is later: its trace begins with the trace of \<open>s\<close>.
\<close>

definition new_events :: "state \<Rightarrow> state \<Rightarrow> event list" where
  "new_events s s' = drop (length (trace s)) (trace s')"

definition extends :: "state \<Rightarrow> state \<Rightarrow> bool" where
  "extends s s' \<longleftrightarrow> take (length (trace s)) (trace s') = trace s"

text \<open>
  A request is in order for a client whose stored token is \<open>tok\<close> when its only header
  is the authorization header made from that token, or when it is a direct transfer.
\<close>

definition authorised :: "json option \<Rightarrow> request \<Rightarrow> bool" where
  "authorised tok rq \<longleftrightarrow>
     (case tok of Some t \<Rightarrow> req_headers rq = bearer t | None \<Rightarrow> False) \<or> signed_transfer rq"

text \<open>
  \<open>steps s s'\<close>: \<open>s'\<close> is later than \<open>s\<close>, the four attributes are the same in both, and
  every request sent in between is in order.
\<close>

definition steps :: "state \<Rightarrow> state \<Rightarrow> bool" where
  "steps s s' \<longleftrightarrow>
     self_attrs s' = self_attrs s \<and> extends s s' \<and>
     list_all (authorised (oauth_token s)) (requests_of (new_events s s'))"

definition keeps :: "'a io \<Rightarrow> state \<Rightarrow> bool" where
  "keeps m s \<longleftrightarrow> steps s (snd (m s))"

text \<open>The request that resolves the download URL of a resource.\<close>

definition resource_download_request :: "json \<Rightarrow> json \<Rightarrow> json \<Rightarrow> request" where
  "resource_download_request tok space_id rid =
     \<lparr>meth = GET,
      req_url = api @ ''/flow/storage/v1/spaces/'' @ py_str space_id @ ''/resources/''
              @ py_str rid @ ''/download-url'',
      req_headers = [(''Authorization'', ''Bearer '' @ py_str tok)],
      body = NoBody, stream = False\<rparr>"

text \<open>
  The state in which a download loop is after its first \<open>i\<close> rounds, when it started
  in state \<open>s\<close> on the records \<open>recs\<close>.
\<close>

definition after_records :: "env \<Rightarrow> string \<Rightarrow> string \<Rightarrow> json list \<Rightarrow> nat \<Rightarrow> state \<Rightarrow> state" where
  "after_records E dir pre recs i s = snd (download_each E dir pre (take i recs) [] s)"


section \<open>A sample service\<close>

text \<open>
  One concrete environment, on which the properties below are exercised: it accepts the
  credentials \<^verbatim>\<open>id\<close>/\<^verbatim>\<open>secret\<close>, stores one upload, reports \<^verbatim>\<open>job1\<close> as running
  until the client has slept twice, lists two logs and one output for it (the second log
  can no longer be fetched), and lists nothing for \<^verbatim>\<open>job0\<close>.
\<close>

definition json_response :: "int \<Rightarrow> json \<Rightarrow> response" where
  "json_response code j = \<lparr>status_code = code, headers = [], json_body = Some j, content = []\<rparr>"

definition raw_response :: "int \<Rightarrow> (string \<times> string) list \<Rightarrow> string \<Rightarrow> response" where
  "raw_response code hs bytes =
     \<lparr>status_code = code, headers = hs, json_body = None, content = bytes\<rparr>"

fun slept :: "event \<Rightarrow> bool" where
  "slept (Slept _) = True"
| "slept _ = False"

definition artifact :: "string \<Rightarrow> string \<Rightarrow> json" where
  "artifact rid path =
     JObj [(''spaceId'', JStr ''scratch:@default''), (''resourceId'', JStr rid), (''path'', JStr path)]"

definition demo_net :: "event list \<Rightarrow> request \<Rightarrow> reply" where
  "demo_net tr rq =
     (let u = req_url rq; m = meth rq;
          compute = api @ ''/flow/compute/v1/queues/@default/jobs'';
          storage = api @ ''/flow/storage/v1/spaces/scratch:@default''
      in
      if u = api @ ''/authentication/v2/token'' then
        (if rq = auth_request (JStr ''id'') (JStr ''secret'')
         then Response (json_response 200 (JObj [(''access_token'', JStr ''tok''), (''expires_in'', JNum 3599)]))
         else Response (json_response 401 (JObj [(''developerMessage'', JStr ''bad credentials'')])))
      else if u = compute then
        (if m = POST then Response (json_response 200 (JObj [(''id'', JStr ''job1'')]))
         else Response (json_response 200 (JObj [(''results'', JArr [JObj [(''id'', JStr ''job1'')]])])))
      else if u = compute @ ''/job1'' then
        Response (json_response 200 (JObj [(''id'', JStr ''job1''),
          (''status'', JStr (if length (filter slept tr) < 2 then ''RUNNING'' else ''SUCCEEDED''))]))
      else if u = compute @ ''/job1/logs'' then
        Response (json_response 200 (JObj [(''results'',
          JArr [artifact ''r1'' ''logs/stdout.txt'', artifact ''r2'' ''logs/stderr.txt''])]))
      else if u = compute @ ''/job1/outputs'' then
        Response (json_response 200 (JObj [(''results'', JArr [artifact ''r3'' ''out/planeWithTrees.usd''])]))
      else if u = compute @ ''/job0/logs'' \<or> u = compute @ ''/job0/outputs'' then
        Response (json_response 200 (JObj [(''results'', JArr [])]))
      else if u = storage @ ''/resources/r1/download-url'' then
        Response (json_response 200 (JObj [(''url'', JStr ''https://signed.example/r1'')]))
      else if u = storage @ ''/resources/r2/download-url'' then
        Response (json_response 200 (JObj [(''url'', JStr ''https://signed.example/r2'')]))
      else if u = storage @ ''/resources/r3/download-url'' then
        Response (json_response 200 (JObj [(''url'', JStr ''https://signed.example/r3'')]))
      else if u = ''https://signed.example/r1'' then Response (raw_response 200 [] ''started'')
      else if u = ''https://signed.example/r2'' then Response (raw_response 404 [] ''gone'')
      else if u = ''https://signed.example/r3'' then Response (raw_response 200 [] ''usda'')
      else if u = storage @ ''/resources/plane.usd/upload-urls'' then
        Response (json_response 200 (JObj [
          (''urls'', JArr [JObj [(''url'', JStr ''https://signed.example/up'')]]),
          (''upload'', JObj [(''resourceId'', JStr ''plane.usd''), (''id'', JStr ''u1'')])]))
      else if u = ''https://signed.example/up'' then Response (raw_response 200 [(''ETag'', ''e1'')] [])
      else if u = storage @ ''/uploads:complete'' then
        Response (json_response 200 (JObj [(''urn'', JStr ''urn:plane'')]))
      else NetError)"

definition demo :: env where
  "demo = \<lparr>net = demo_net, can_write = (\<lambda>path. True)\<rparr>"

text \<open>A service that answers everything with status 401 and a body that carries a token.\<close>

definition stale :: env where
  "stale = \<lparr>net = (\<lambda>tr rq. Response (json_response 401 (JObj [(''access_token'', JStr ''old'')]))),
             can_write = (\<lambda>path. True)\<rparr>"

text \<open>A new client object beside one local file, and the same object once constructed.\<close>

definition client0 :: state where
  "client0 = new_object [] [''plane.usd'' \<mapsto> ''usda'']"

definition client1 :: state where
  "client1 = \<lparr>client_id = Some (JStr ''id''), client_secret = Some (JStr ''secret''),
               oauth_token = Some (JStr ''tok''), queue_id = Some (JStr ''@default''),
               trace = [Sent (auth_request (JStr ''id'') (JStr ''secret''))],
               files = [''plane.usd'' \<mapsto> ''usda'']\<rparr>"

text \<open>The status request for \<^verbatim>\<open>job1\<close> that the constructed client sends.\<close>

definition poll_request :: request where
  "poll_request =
     \<lparr>meth = GET, req_url = api @ ''/flow/compute/v1/queues/@default/jobs/job1'',
      req_headers = [(''Authorization'', ''Bearer tok'')], body = NoBody, stream = False\<rparr>"

definition list_request :: request where
  "list_request =
     \<lparr>meth = GET, req_url = api @ ''/flow/compute/v1/queues/@default/jobs'',
      req_headers = [(''Authorization'', ''Bearer tok'')], body = NoBody, stream = False\<rparr>"


definition demo_calls :: "call list" where
  "demo_calls = [Upload_file ''plane.usd'' (JStr ''scratch:@default'') (JStr ''plane.usd''),
                 List_jobs, Get_job_data (JStr ''job1'')]"

definition client2 :: state where
  "client2 = client1\<lparr>trace := trace client1 @
        [Sent (upload_urls_request (JStr ''tok'') (JStr ''scratch:@default'') (JStr ''plane.usd'')),
         Sent (put_request (JStr ''https://signed.example/up'') ''usda''),
         Sent (complete_request (JStr ''tok'') (JStr ''scratch:@default'') (JStr ''plane.usd'')
                 (JStr ''u1'') ''e1''),
         Sent list_request, Sent poll_request]\<rparr>"

definition job0_logs_request :: request where
  "job0_logs_request =
     \<lparr>meth = GET, req_url = api @ ''/flow/compute/v1/queues/@default/jobs/job0/logs'',
      req_headers = [(''Authorization'', ''Bearer tok'')], body = NoBody, stream = False\<rparr>"

definition job0_outputs_request :: request where
  "job0_outputs_request =
     \<lparr>meth = GET, req_url = api @ ''/flow/compute/v1/queues/@default/jobs/job0/outputs'',
      req_headers = [(''Authorization'', ''Bearer tok'')], body = NoBody, stream = False\<rparr>"

definition logs_request :: request where
  "logs_request =
     \<lparr>meth = GET, req_url = api @ ''/flow/compute/v1/queues/@default/jobs/job1/logs'',
      req_headers = [(''Authorization'', ''Bearer tok'')], body = NoBody, stream = False\<rparr>"

definition download_url_request :: "string \<Rightarrow> request" where
  "download_url_request rid =
     \<lparr>meth = GET,
      req_url = api @ ''/flow/storage/v1/spaces/scratch:@default/resources/'' @ rid @ ''/download-url'',
      req_headers = [(''Authorization'', ''Bearer tok'')], body = NoBody, stream = False\<rparr>"

definition client3 :: state where
  "client3 = client1\<lparr>trace := trace client1 @
       [Sent logs_request,
        Sent (download_url_request ''r1''), Sent (signed_get (JStr ''https://signed.example/r1'')),
        Sent (download_url_request ''r2''), Sent (signed_get (JStr ''https://signed.example/r2''))],
     files := (files client1)(''.logs/joblog_stdout.txt'' \<mapsto> ''started'')\<rparr>"

definition outputs_request :: request where
  "outputs_request =
     \<lparr>meth = GET, req_url = api @ ''/flow/compute/v1/queues/@default/jobs/job1/outputs'',
      req_headers = [(''Authorization'', ''Bearer tok'')], body = NoBody, stream = False\<rparr>"

definition client4 :: state where
  "client4 = client1\<lparr>trace := trace client1 @
       [Sent outputs_request,
        Sent (download_url_request ''r3''), Sent (signed_get (JStr ''https://signed.example/r3''))],
     files := (files client1)(''.outputs/planeWithTrees.usd'' \<mapsto> ''usda'')\<rparr>"

text \<open>The object left behind when the sample service rejects the secret.\<close>

definition rejected :: state where
  "rejected = \<lparr>client_id = Some (JStr ''id''), client_secret = Some (JStr ''wrong''),
                oauth_token = None, queue_id = None,
                trace = [Sent (auth_request (JStr ''id'') (JStr ''wrong''))],
                files = [''plane.usd'' \<mapsto> ''usda'']\<rparr>"


section \<open>What every operation leaves alone\<close>

lemmas io_defs = bind_def ret_def lift_def attr_def send_def requests_get_def requests_post_def
  requests_put_def print_def time_sleep_def read_file_def write_chunks_def response_json_def

lemma requests_of_append: "requests_of (xs @ ys) = requests_of xs @ requests_of ys"
  by (induction xs rule: requests_of.induct) simp_all

lemma steps_refl: "steps s s"
  by (simp add: steps_def extends_def new_events_def)

lemma extendsD: "extends s s' \<Longrightarrow> trace s' = trace s @ new_events s s'"
  unfolding extends_def new_events_def
  by (metis append_take_drop_id)

lemma stepsI:
  assumes "self_attrs s' = self_attrs s" "trace s' = trace s @ new"
    "list_all (authorised (oauth_token s)) (requests_of new)"
  shows "steps s s'"
  using assms by (simp add: steps_def extends_def new_events_def)

lemma steps_trans:
  assumes "steps s s1" "steps s1 s2"
  shows "steps s s2"
proof -
  from assms have a: "self_attrs s1 = self_attrs s" "self_attrs s2 = self_attrs s1"
    by (simp_all add: steps_def)
  then have tok: "oauth_token s1 = oauth_token s" by (simp add: self_attrs_def)
  from assms have t1: "trace s1 = trace s @ new_events s s1" and t2: "trace s2 = trace s1 @ new_events s1 s2"
    by (simp_all add: steps_def extendsD)
  from assms tok have l: "list_all (authorised (oauth_token s)) (requests_of (new_events s s1))"
     "list_all (authorised (oauth_token s)) (requests_of (new_events s1 s2))"
    by (simp_all add: steps_def)
  show ?thesis
  proof (rule stepsI)
    show "self_attrs s2 = self_attrs s" using a by simp
    show "trace s2 = trace s @ (new_events s s1 @ new_events s1 s2)" using t1 t2 by simp
    show "list_all (authorised (oauth_token s)) (requests_of (new_events s s1 @ new_events s1 s2))"
      using l by (simp add: requests_of_append)
  qed
qed

lemma keeps_ret: "keeps (ret x) s"
  by (simp add: keeps_def ret_def steps_refl)

lemma keeps_lift: "keeps (lift r) s"
  by (simp add: keeps_def lift_def steps_refl)

lemma keeps_attr: "keeps (attr f) s"
  by (simp add: keeps_def attr_def steps_refl split: option.splits)

lemma attr_InrD: "attr f s = (Inr x, s') \<Longrightarrow> s' = s \<and> f s = Some x"
  by (auto simp: attr_def split: option.splits)

lemma keeps_bind:
  assumes "keeps m s" "\<And>x s1. m s = (Inr x, s1) \<Longrightarrow> keeps (f x) s1"
  shows "keeps (bind m f) s"
proof -
  obtain r s1 where m: "m s = (r, s1)" by (cases "m s")
  show ?thesis
  proof (cases r)
    case (Inl e)
    with m assms(1) show ?thesis by (simp add: keeps_def bind_def)
  next
    case (Inr x)
    with m assms(2) have "steps s1 (snd (f x s1))" by (simp add: keeps_def)
    moreover from m assms(1) have "steps s s1" by (simp add: keeps_def)
    ultimately have "steps s (snd (f x s1))" using steps_trans by blast
    with m Inr show ?thesis by (simp add: keeps_def bind_def)
  qed
qed

lemma keeps_send:
  assumes "authorised (oauth_token s) rq"
  shows "keeps (send E rq) s"
  unfolding keeps_def
  by (rule stepsI[where new = "[Sent rq]"])
     (use assms in \<open>simp_all add: send_def Let_def self_attrs_def split: reply.splits\<close>)

lemma keeps_print: "keeps (print line) s"
  unfolding keeps_def
  by (rule stepsI[where new = "[Printed line]"]) (simp_all add: print_def self_attrs_def)

lemma keeps_time_sleep: "keeps (time_sleep secs) s"
proof (cases "sleepable secs")
  case True
  then show ?thesis unfolding keeps_def
    by (intro stepsI[where new = "[Slept secs]"])
       (auto simp: time_sleep_def self_attrs_def sleepable_def max_sleep_def)
next
  case False
  then have "snd (time_sleep secs s) = s"
    by (auto simp: time_sleep_def sleepable_def)
  then show ?thesis by (simp add: keeps_def steps_refl)
qed

lemma keeps_read_file: "keeps (read_file path) s"
  by (simp add: keeps_def read_file_def steps_refl split: option.splits)

lemma keeps_write_chunks: "keeps (write_chunks E path chunks) s"
proof (cases "can_write E path")
  case True
  then show ?thesis unfolding keeps_def
    by (intro stepsI[where new = "[]"]) (simp_all add: write_chunks_def self_attrs_def)
next
  case False
  then show ?thesis by (simp add: keeps_def write_chunks_def steps_refl)
qed

lemma authorised_bearer: "oauth_token s = Some tok \<Longrightarrow> authorised (oauth_token s) \<lparr>meth = m, req_url = u, req_headers = bearer tok, body = b, stream = st\<rparr>"
  by (simp add: authorised_def)

lemmas keeps_intros = keeps_bind keeps_ret keeps_lift keeps_attr keeps_send keeps_print keeps_time_sleep
   keeps_read_file keeps_write_chunks

lemma keeps_get_job_data: "keeps (get_job_data E job) s"
  unfolding get_job_data_def requests_get_def
  by (auto intro!: keeps_intros authorised_bearer dest!: attr_InrD)

lemma authorised_signed: "signed_transfer rq \<Longrightarrow> authorised tok rq"
  by (simp add: authorised_def)

lemma keeps_get_resource_upload_url: "keeps (get_resource_upload_url E space_id resource_id) s"
  unfolding get_resource_upload_url_def requests_get_def
  by (auto intro!: keeps_intros authorised_bearer dest!: attr_InrD)

lemma keeps_upload_to_signed_url: "keeps (upload_to_signed_url E signedUrl path) s"
  unfolding upload_to_signed_url_def requests_put_def
  by (auto intro!: keeps_intros authorised_signed simp: signed_transfer_def)

lemma keeps_complete_upload: "keeps (complete_upload E space_id resource_id upload_id etag) s"
  unfolding complete_upload_def requests_post_def Let_def
  by (auto intro!: keeps_intros authorised_bearer dest!: attr_InrD)

lemma keeps_upload_file: "keeps (upload_file E path space_id resource_id) s"
  unfolding upload_file_def
  by (intro keeps_bind keeps_lift keeps_get_resource_upload_url keeps_upload_to_signed_url
      keeps_complete_upload)

lemma keeps_list_jobs: "keeps (list_jobs E) s"
  unfolding list_jobs_def requests_get_def
  by (auto intro!: keeps_intros authorised_bearer dest!: attr_InrD)

lemma keeps_submit_job: "keeps (submit_job E job_json) s"
  unfolding submit_job_def requests_post_def
  by (auto intro!: keeps_intros authorised_bearer dest!: attr_InrD)

lemma keeps_get_log_data: "keeps (get_log_data E job) s"
  unfolding get_log_data_def requests_get_def
  by (auto intro!: keeps_intros authorised_bearer dest!: attr_InrD)

lemma keeps_get_output_data: "keeps (get_output_data E job) s"
  unfolding get_output_data_def requests_get_def
  by (auto intro!: keeps_intros authorised_bearer dest!: attr_InrD)

lemma keeps_get_download_url_for_resource: "keeps (get_download_url_for_resource E space_id rid) s"
  unfolding get_download_url_for_resource_def requests_get_def
  by (auto intro!: keeps_intros authorised_bearer dest!: attr_InrD)

lemma keeps_download_file_from_signed_url:
  "keeps (download_file_from_signed_url E signedUrl destination chunk_size) s"
  unfolding download_file_from_signed_url_def requests_get_def
  by (auto intro!: keeps_intros authorised_signed simp: signed_transfer_def)

lemma keeps_download_file: "keeps (download_file E space_id rid destination) s"
  unfolding download_file_def
  by (intro keeps_bind keeps_lift keeps_get_download_url_for_resource
      keeps_download_file_from_signed_url)

lemma keeps_download_each: "keeps (download_each E dir pre recs filepaths) s"
proof (induction recs arbitrary: filepaths s)
  case Nil
  show ?case by (simp add: keeps_ret)
next
  case (Cons rec recs)
  show ?case unfolding download_each.simps
    by (intro keeps_bind keeps_lift keeps_download_file Cons.IH)
qed

lemma keeps_download_job_logs: "keeps (download_job_logs E job logdir) s"
  unfolding download_job_logs_def
  by (intro keeps_bind keeps_lift keeps_get_log_data keeps_download_each)

lemma keeps_download_job_outputs: "keeps (download_job_outputs E job outdir) s"
  unfolding download_job_outputs_def
  by (intro keeps_bind keeps_lift keeps_get_output_data keeps_download_each)

lemma steps_wait_body:
  "(wait_body E job secs s = Leave r \<longrightarrow> steps s (snd r)) \<and>
   (wait_body E job secs s = Again s' \<longrightarrow> steps s s')"
proof -
  obtain r1 s1 where g: "get_job_data E job s = (r1, s1)" by (cases "get_job_data E job s")
  with keeps_get_job_data[of E job s] have s1: "steps s s1" by (simp add: keeps_def)
  show ?thesis
  proof (cases r1)
    case (Inl e)
    with g s1 show ?thesis by (auto simp: wait_body_def)
  next
    case (Inr j)
    show ?thesis
    proof (cases "py_getitem j ''status''")
      case (Inl e)
      with g Inr s1 show ?thesis by (auto simp: wait_body_def)
    next
      case st: (Inr st)
      define s2 where "s2 = snd (print (''Job status: '' @ py_str st) s1)"
      have p: "print (''Job status: '' @ py_str st) s1 = (Inr (), s2)"
        by (simp add: s2_def print_def)
      from keeps_print[of "''Job status: '' @ py_str st" s1] have "steps s1 s2"
        by (simp add: keeps_def s2_def)
      with s1 have s2: "steps s s2" by (rule steps_trans)
      obtain r3 s3 where sl: "time_sleep secs s2 = (r3, s3)" by (cases "time_sleep secs s2")
      with keeps_time_sleep[of secs s2] have "steps s2 s3" by (simp add: keeps_def)
      with s2 have s3: "steps s s3" by (rule steps_trans)
      from g Inr st p sl s2 s3 show ?thesis
        by (cases r3) (auto simp: wait_body_def)
    qed
  qed
qed

lemma steps_wait:
  assumes "wait_for_job_to_complete E job secs s = Some r"
  shows "steps s (snd r)"
proof (rule wait_for_job_to_complete.raw_induct[where P = "\<lambda>E job secs s r. steps s (snd r)",
      OF _ assms])
  fix wait :: "env \<Rightarrow> json \<Rightarrow> int \<Rightarrow> state \<Rightarrow> ((error + json) \<times> state) option"
  fix E job secs s r
  assume IH: "\<And>E job secs s r. wait E job secs s = Some r \<Longrightarrow> steps s (snd r)"
  assume eq: "(case wait_body E job secs s of Leave r \<Rightarrow> Some r
               | Again s' \<Rightarrow> wait E job secs s') = Some r"
  show "steps s (snd r)"
  proof (cases "wait_body E job secs s")
    case (Leave r')
    with eq have "r' = r" by simp
    with Leave steps_wait_body[of E job secs s r] show ?thesis by simp
  next
    case (Again s')
    with eq have "wait E job secs s' = Some r" by simp
    from IH[OF this] have "steps s' (snd r)" .
    moreover from Again steps_wait_body[of E job secs s _ s'] have "steps s s'" by simp
    ultimately show ?thesis using steps_trans by blast
  qed
qed

lemma steps_run:
  assumes "run E c s = Some (r, s')"
  shows "steps s s'"
proof (cases c)
  case (Upload_file path space_id resource_id)
  with assms keeps_upload_file[of E path space_id resource_id s] show ?thesis
    by (auto simp: keeps_def returning_def)
next
  case List_jobs
  with assms keeps_list_jobs[of E s] show ?thesis by (auto simp: keeps_def returning_def)
next
  case (Submit_job j)
  with assms keeps_submit_job[of E j s] show ?thesis by (auto simp: keeps_def returning_def)
next
  case (Get_job_data j)
  with assms keeps_get_job_data[of E j s] show ?thesis by (auto simp: keeps_def returning_def)
next
  case (Wait_for_job_to_complete j secs)
  with assms obtain r' where "wait_for_job_to_complete E j secs s = Some r'" "snd r' = s'"
    by (auto simp: returning_def)
  with steps_wait show ?thesis by blast
next
  case (Download_file sp rid dest)
  with assms keeps_download_file[of E sp rid dest s] show ?thesis
    by (auto simp: keeps_def returning_def)
next
  case (Download_job_logs j d)
  with assms keeps_download_job_logs[of E j d s] show ?thesis
    by (auto simp: keeps_def returning_def)
next
  case (Download_job_outputs j d)
  with assms keeps_download_job_outputs[of E j d s] show ?thesis
    by (auto simp: keeps_def returning_def)
qed

lemma steps_run_all:
  assumes "run_all E calls s = Some s'"
  shows "steps s s'"
  using assms
proof (induction calls arbitrary: s)
  case Nil
  then show ?case by (simp add: steps_refl)
next
  case (Cons c cs)
  from Cons.prems obtain r s1 where r: "run E c s = Some (r, s1)" and rest: "run_all E cs s1 = Some s'"
    by (auto split: option.splits)
  from steps_run[OF r] Cons.IH[OF rest] show ?case by (rule steps_trans)
qed

section \<open>The polling loop\<close>






lemma wait_leave:
  "wait_body E job secs s = Leave r \<Longrightarrow> wait_for_job_to_complete E job secs s = Some r"
  by (subst wait_for_job_to_complete.simps) simp





lemma demo_poll:
  "trace s = tr \<Longrightarrow> oauth_token s = Some (JStr ''tok'') \<Longrightarrow> queue_id s = Some (JStr ''@default'') \<Longrightarrow>
   get_job_data demo (JStr ''job1'') s =
     (Inr (JObj [(''id'', JStr ''job1''),
          (''status'', JStr (if length (filter slept tr) < 2 then ''RUNNING'' else ''SUCCEEDED''))]),
      s\<lparr>trace := tr @ [Sent poll_request]\<rparr>)"
  by (simp add: get_job_data_def io_defs demo_def demo_net_def poll_request_def bearer_def
     json_response_def api_def Let_def)






section \<open>The stored session\<close>

lemma init_token:
  assumes "init E cid sec qid s0 = (Inr (), s1)"
    and "net E (trace s0) (auth_request cid sec) = Response r"
    and "json_body r = Some j" and "py_getitem j ''access_token'' = Inr tok"
  shows "oauth_token s1 = Some tok"
  using assms
  by (auto simp: init_def generate_oauth_token_def io_defs Let_def auth_request_def
      split: if_splits)

lemma demo_list_jobs:
  "trace s = tr \<Longrightarrow> oauth_token s = Some (JStr ''tok'') \<Longrightarrow> queue_id s = Some (JStr ''@default'') \<Longrightarrow>
   list_jobs demo s =
     (Inr (JArr [JObj [(''id'', JStr ''job1'')]]), s\<lparr>trace := tr @ [Sent list_request]\<rparr>)"
  by (simp add: list_jobs_def io_defs demo_def demo_net_def list_request_def bearer_def
     json_response_def api_def Let_def auth_request_def)

lemma demo_init:
  "init demo (JStr ''id'') (JStr ''secret'') (JStr ''@default'') client0 = (Inr (), client1)"
  by (simp add: init_def generate_oauth_token_def io_defs demo_def demo_net_def client0_def
      client1_def new_object_def auth_request_def json_response_def api_def Let_def)

lemma demo_two_calls:
  "run_all demo [List_jobs, Get_job_data (JStr ''job1'')] client1 =
     Some (client1\<lparr>trace := trace client1 @ [Sent list_request, Sent poll_request]\<rparr>)"
  by (simp add: demo_list_jobs[OF refl] demo_poll[OF refl] returning_def client1_def)

text \<open>
  C10. Whatever public methods are called on the client, in whatever order and with
  whatever arguments and outcomes, the stored \<^verbatim>\<open>oauth_token\<close>, \<^verbatim>\<open>queue_id\<close>,
  \<^verbatim>\<open>client_id\<close> and \<^verbatim>\<open>client_secret\<close> are afterwards what they were before.
\<close>

theorem operations_leave_session_state:
  assumes "run_all E calls s = Some s'"
  shows "oauth_token s' = oauth_token s \<and> queue_id s' = queue_id s \<and>
         client_id s' = client_id s \<and> client_secret s' = client_secret s"
  using steps_run_all[OF assms] by (simp add: steps_def self_attrs_def)

theorem operations_leave_session_state_witness:
  "run_all demo [List_jobs, Get_job_data (JStr ''job1'')] client1 =
     Some (client1\<lparr>trace := trace client1 @ [Sent list_request, Sent poll_request]\<rparr>) \<and>
   oauth_token (client1\<lparr>trace := trace client1 @ [Sent list_request, Sent poll_request]\<rparr>)
     = Some (JStr ''tok'') \<and>
   queue_id (client1\<lparr>trace := trace client1 @ [Sent list_request, Sent poll_request]\<rparr>)
     = Some (JStr ''@default'')"
  using operations_leave_session_state[OF demo_two_calls] demo_two_calls
  by (simp add: client1_def)

text \<open>
  C8. When the client has been constructed and the authorization service answered the
  credential exchange with the token \<open>t\<close> (a string), then after any sequence of method
  calls the stored token is still \<open>t\<close>, and every request sent since the construction
  carries exactly the header \<^verbatim>\<open>Authorization: Bearer t\<close>; the only exceptions are the
  direct transfers to and from signed URLs, which carry no header.
\<close>

theorem token_used_verbatim:
  assumes "init E cid sec qid (new_object tr fs) = (Inr (), s1)"
    and "net E tr (auth_request cid sec) = Response r"
    and "json_body r = Some j"
    and "py_getitem j ''access_token'' = Inr (JStr t)"
    and "run_all E calls s1 = Some s2"
  shows "oauth_token s2 = Some (JStr t) \<and> extends s1 s2 \<and>
         (\<forall>rq \<in> set (requests_of (new_events s1 s2)).
             req_headers rq = [(''Authorization'', ''Bearer '' @ t)] \<or> signed_transfer rq)"
proof -
  have "trace (new_object tr fs) = tr" by (simp add: new_object_def)
  with assms(2) have "net E (trace (new_object tr fs)) (auth_request cid sec) = Response r"
    by simp
  from init_token[OF assms(1) this assms(3,4)] have tok: "oauth_token s1 = Some (JStr t)" .
  from steps_run_all[OF assms(5)] have st: "steps s1 s2" .
  with tok have "oauth_token s2 = Some (JStr t)" by (simp add: steps_def self_attrs_def)
  moreover from st have "extends s1 s2" by (simp add: steps_def)
  moreover from st tok have "list_all (authorised (Some (JStr t))) (requests_of (new_events s1 s2))"
    by (simp add: steps_def)
  then have "\<forall>rq \<in> set (requests_of (new_events s1 s2)).
             req_headers rq = [(''Authorization'', ''Bearer '' @ t)] \<or> signed_transfer rq"
    by (simp add: list_all_iff authorised_def bearer_def)
  ultimately show ?thesis by (intro conjI)
qed

section \<open>The upload protocol\<close>

text \<open>When a step yields a value: what must have happened.\<close>

lemma bind_Inr:
  "bind m f s = (Inr y, s') \<longleftrightarrow> (\<exists>x s1. m s = (Inr x, s1) \<and> f x s1 = (Inr y, s'))"
  by (auto simp: bind_def split: prod.splits sum.splits)

lemma lift_Inr: "lift r s = (Inr x, s') \<longleftrightarrow> r = Inr x \<and> s' = s"
  by (auto simp: lift_def)

lemma attr_Inr: "attr f s = (Inr x, s') \<longleftrightarrow> f s = Some x \<and> s' = s"
  by (auto simp: attr_def split: option.splits)

lemma send_Inr:
  "send E rq s = (Inr r, s') \<longleftrightarrow>
     net E (trace s) rq = Response r \<and> s' = s\<lparr>trace := trace s @ [Sent rq]\<rparr>"
  by (auto simp: send_def Let_def split: reply.splits)

lemma read_file_Inr:
  "read_file path s = (Inr bytes, s') \<longleftrightarrow> files s path = Some bytes \<and> s' = s"
  by (auto simp: read_file_def split: option.splits)

lemma response_json_Inr: "response_json r = Inr j \<longleftrightarrow> json_body r = Some j"
  by (auto simp: response_json_def split: option.splits)

lemmas Inr_simps = bind_Inr lift_Inr attr_Inr send_Inr read_file_Inr response_json_Inr

lemmas demo_defs = demo_def demo_net_def json_response_def raw_response_def api_def artifact_def
  auth_request_def

lemma get_resource_upload_url_Inr:
  "get_resource_upload_url E space_id resource_id s = (Inr j, s') \<longleftrightarrow>
     (\<exists>tok r. oauth_token s = Some tok
        \<and> net E (trace s) (upload_urls_request tok space_id resource_id) = Response r
        \<and> json_body r = Some j
        \<and> s' = s\<lparr>trace := trace s @ [Sent (upload_urls_request tok space_id resource_id)]\<rparr>)"
  by (auto simp: get_resource_upload_url_def requests_get_def upload_urls_request_def bearer_def
      Inr_simps)

lemma upload_to_signed_url_Inr:
  "upload_to_signed_url E signedUrl path s = (Inr etag, s') \<longleftrightarrow>
     (\<exists>bytes r. files s path = Some bytes
        \<and> net E (trace s) (put_request signedUrl bytes) = Response r
        \<and> header r ''etag'' = Inr etag
        \<and> s' = s\<lparr>trace := trace s @ [Sent (put_request signedUrl bytes)]\<rparr>)"
  by (auto simp: upload_to_signed_url_def requests_put_def put_request_def Inr_simps)

lemma complete_upload_Inr:
  "complete_upload E space_id rid uid etag s = (Inr urn, s') \<longleftrightarrow>
     (\<exists>tok r j. oauth_token s = Some tok
        \<and> net E (trace s) (complete_request tok space_id rid uid etag) = Response r
        \<and> json_body r = Some j \<and> py_getitem j ''urn'' = Inr urn
        \<and> s' = s\<lparr>trace := trace s @ [Sent (complete_request tok space_id rid uid etag)]\<rparr>)"
  by (auto simp: complete_upload_def requests_post_def complete_request_def bearer_def Let_def
      Inr_simps)


lemma upload_file_InrI:
  assumes "oauth_token s = Some tok" "files s path = Some bytes"
    and "net E (trace s) (upload_urls_request tok space_id resource_id) = Response r1"
    and "json_body r1 = Some j1"
    and "py_getitem j1 ''urls'' = Inr urls" "py_getitem0 urls = Inr url0"
    and "py_getitem url0 ''url'' = Inr signedUrl"
    and "net E (trace s @ [Sent (upload_urls_request tok space_id resource_id)])
           (put_request signedUrl bytes) = Response r2"
    and "header r2 ''etag'' = Inr etag"
    and "py_getitem j1 ''upload'' = Inr upload"
    and "py_getitem upload ''resourceId'' = Inr rid" "py_getitem upload ''id'' = Inr uid"
    and "net E (trace s @ [Sent (upload_urls_request tok space_id resource_id),
                          Sent (put_request signedUrl bytes)])
           (complete_request tok space_id rid uid etag) = Response r3"
    and "json_body r3 = Some j3" "py_getitem j3 ''urn'' = Inr urn"
  shows "upload_file E path space_id resource_id s =
     (Inr urn, s\<lparr>trace := trace s @ [Sent (upload_urls_request tok space_id resource_id),
                                    Sent (put_request signedUrl bytes),
                                    Sent (complete_request tok space_id rid uid etag)]\<rparr>)"
proof -
  let ?s1 = "s\<lparr>trace := trace s @ [Sent (upload_urls_request tok space_id resource_id)]\<rparr>"
  let ?s2 = "?s1\<lparr>trace := trace ?s1 @ [Sent (put_request signedUrl bytes)]\<rparr>"
  let ?s3 = "?s2\<lparr>trace := trace ?s2 @ [Sent (complete_request tok space_id rid uid etag)]\<rparr>"
  have a: "get_resource_upload_url E space_id resource_id s = (Inr j1, ?s1)"
    unfolding get_resource_upload_url_Inr using assms(1,3,4) by blast
  have c: "upload_to_signed_url E signedUrl path ?s1 = (Inr etag, ?s2)"
    unfolding upload_to_signed_url_Inr using assms(2,8,9) by auto
  have e: "complete_upload E space_id rid uid etag ?s2 = (Inr urn, ?s3)"
    unfolding complete_upload_Inr using assms(1,13,14,15) by auto
  have "upload_file E path space_id resource_id s = (Inr urn, ?s3)"
    unfolding upload_file_def bind_Inr lift_Inr
    using a c e assms(5,6,7,10,11,12) by auto
  then show ?thesis by simp
qed

lemma demo_upload:
  "upload_file demo ''plane.usd'' (JStr ''scratch:@default'') (JStr ''plane.usd'') client1 =
     (Inr (JStr ''urn:plane''),
      client1\<lparr>trace := trace client1 @
        [Sent (upload_urls_request (JStr ''tok'') (JStr ''scratch:@default'') (JStr ''plane.usd'')),
         Sent (put_request (JStr ''https://signed.example/up'') ''usda''),
         Sent (complete_request (JStr ''tok'') (JStr ''scratch:@default'') (JStr ''plane.usd'')
                 (JStr ''u1'') ''e1'')]\<rparr>)"
  by (rule upload_file_InrI[where
        ?r1.0 = "json_response 200 (JObj [
          (''urls'', JArr [JObj [(''url'', JStr ''https://signed.example/up'')]]),
          (''upload'', JObj [(''resourceId'', JStr ''plane.usd''), (''id'', JStr ''u1'')])])"
        and ?j1.0 = "JObj [
          (''urls'', JArr [JObj [(''url'', JStr ''https://signed.example/up'')]]),
          (''upload'', JObj [(''resourceId'', JStr ''plane.usd''), (''id'', JStr ''u1'')])]"
        and urls = "JArr [JObj [(''url'', JStr ''https://signed.example/up'')]]"
        and ?url0.0 = "JObj [(''url'', JStr ''https://signed.example/up'')]"
        and upload = "JObj [(''resourceId'', JStr ''plane.usd''), (''id'', JStr ''u1'')]"
        and ?r2.0 = "raw_response 200 [(''ETag'', ''e1'')] []"
        and ?r3.0 = "json_response 200 (JObj [(''urn'', JStr ''urn:plane'')])"
        and ?j3.0 = "JObj [(''urn'', JStr ''urn:plane'')]"])
     (simp_all add: demo_defs client1_def upload_urls_request_def put_request_def
        complete_request_def header_def lower_def)






text \<open>The sample client, constructed and then used for an upload, a listing and a status check.\<close>

lemma client1_attrs:
  "oauth_token client1 = Some (JStr ''tok'')" "queue_id client1 = Some (JStr ''@default'')"
  by (simp_all add: client1_def)

lemma demo_run_calls: "run_all demo demo_calls client1 = Some client2"
  by (simp add: demo_calls_def client2_def demo_upload returning_def
      demo_list_jobs[OF refl] demo_poll[OF refl] client1_attrs)

theorem token_used_verbatim_witness:
  "init demo (JStr ''id'') (JStr ''secret'') (JStr ''@default'')
       (new_object [] [''plane.usd'' \<mapsto> ''usda'']) = (Inr (), client1)
   \<and> run_all demo demo_calls client1 = Some client2
   \<and> oauth_token client2 = Some (JStr ''tok'')
   \<and> list_all (\<lambda>rq. req_headers rq = [(''Authorization'', ''Bearer tok'')] \<or> signed_transfer rq)
         (requests_of (new_events client1 client2))"
proof -
  have i: "init demo (JStr ''id'') (JStr ''secret'') (JStr ''@default'')
       (new_object [] [''plane.usd'' \<mapsto> ''usda'']) = (Inr (), client1)"
    using demo_init by (simp add: client0_def)
  have n: "net demo [] (auth_request (JStr ''id'') (JStr ''secret''))
         = Response (json_response 200 (JObj [(''access_token'', JStr ''tok''), (''expires_in'', JNum 3599)]))"
    by (simp add: demo_def demo_net_def api_def auth_request_def)
  have j: "json_body (json_response 200 (JObj [(''access_token'', JStr ''tok''), (''expires_in'', JNum 3599)]))
         = Some (JObj [(''access_token'', JStr ''tok''), (''expires_in'', JNum 3599)])"
    by (simp add: json_response_def)
  have g: "py_getitem (JObj [(''access_token'', JStr ''tok''), (''expires_in'', JNum 3599)]) ''access_token''
         = Inr (JStr ''tok'')" by simp
  from token_used_verbatim[OF i n j g demo_run_calls] i demo_run_calls
  show ?thesis by (simp add: list_all_iff)
qed

section \<open>Construction\<close>

text \<open>
  C9. When the client id or the client secret is falsy (\<^verbatim>\<open>None\<close>, an empty string, ...),
  \<^verbatim>\<open>__init__\<close> raises \<^verbatim>\<open>AssertionError\<close> and no request has been sent; when both are
  truthy, exactly one request is sent, the credential exchange carrying both.
\<close>

theorem init_asserts_credentials:
  "(\<not> py_truthy cid \<or> \<not> py_truthy sec \<longrightarrow>
      fst (init E cid sec qid s) = Inl AssertionError
      \<and> trace (snd (init E cid sec qid s)) = trace s)
   \<and> (py_truthy cid \<and> py_truthy sec \<longrightarrow>
      trace (snd (init E cid sec qid s)) = trace s @ [Sent (auth_request cid sec)])"
  by (auto simp: init_def generate_oauth_token_def io_defs Let_def auth_request_def
      split: prod.splits sum.splits option.splits reply.splits)

theorem init_asserts_credentials_witness:
  "fst (init demo (JStr []) (JStr ''secret'') (JStr ''@default'') client0) = Inl AssertionError
   \<and> trace (snd (init demo (JStr []) (JStr ''secret'') (JStr ''@default'') client0)) = []
   \<and> fst (init demo (JStr ''id'') JNull (JStr ''@default'') client0) = Inl AssertionError
   \<and> trace (snd (init demo (JStr ''id'') JNull (JStr ''@default'') client0)) = []
   \<and> trace (snd (init demo (JStr ''id'') (JStr ''secret'') (JStr ''@default'') client0))
       = [Sent (auth_request (JStr ''id'') (JStr ''secret''))]"
  using init_asserts_credentials[of "JStr []" "JStr ''secret''" demo "JStr ''@default''" client0]
    init_asserts_credentials[of "JStr ''id''" JNull demo "JStr ''@default''" client0]
    init_asserts_credentials[of "JStr ''id''" "JStr ''secret''" demo "JStr ''@default''" client0]
  by (simp add: client0_def new_object_def)

section \<open>Downloads\<close>

text \<open>
  C7. When the listing call for the logs (for the outputs) of a job returns a document
  whose \<^verbatim>\<open>results\<close> hold no record, \<^verbatim>\<open>download_job_logs\<close>
  (\<^verbatim>\<open>download_job_outputs\<close>) returns the empty list of paths, without an error and
  without doing anything after the listing call.
\<close>

theorem empty_listing_gives_no_paths:
  "(get_log_data E job_id s = (Inr logs, s1) \<and> py_getitem logs ''results'' = Inr res
      \<and> py_iter res = Inr [] \<longrightarrow>
      download_job_logs E job_id logdir s = (Inr [], s1))
   \<and> (get_output_data E job_id s = (Inr outputs, s2) \<and> py_getitem outputs ''results'' = Inr res'
      \<and> py_iter res' = Inr [] \<longrightarrow>
      download_job_outputs E job_id outdir s = (Inr [], s2))"
  by (simp add: download_job_logs_def download_job_outputs_def bind_def lift_def ret_def)

theorem empty_listing_gives_no_paths_witness:
  "download_job_logs demo (JStr ''job0'') ''.logs'' client1
     = (Inr [], client1\<lparr>trace := trace client1 @ [Sent job0_logs_request]\<rparr>)
   \<and> download_job_outputs demo (JStr ''job0'') ''.outputs'' client1
     = (Inr [], client1\<lparr>trace := trace client1 @ [Sent job0_outputs_request]\<rparr>)"
proof -
  have l: "get_log_data demo (JStr ''job0'') client1
      = (Inr (JObj [(''results'', JArr [])]), client1\<lparr>trace := trace client1 @ [Sent job0_logs_request]\<rparr>)"
    by (simp add: get_log_data_def io_defs demo_defs bearer_def job0_logs_request_def
        client1_def Let_def)
  have out: "get_output_data demo (JStr ''job0'') client1
      = (Inr (JObj [(''results'', JArr [])]), client1\<lparr>trace := trace client1 @ [Sent job0_outputs_request]\<rparr>)"
    by (simp add: get_output_data_def io_defs demo_defs bearer_def job0_outputs_request_def
        client1_def Let_def)
  from empty_listing_gives_no_paths[of demo "JStr ''job0''" client1
      "JObj [(''results'', JArr [])]" _ "JArr []" "''.logs''"
      "JObj [(''results'', JArr [])]" _ "JArr []" "''.outputs''"] l out
  show ?thesis by simp
qed

lemma download_each_paths:
  "download_each E dir pre recs filepaths s = (Inr paths, s') \<Longrightarrow>
     paths = filepaths @ map (local_path dir pre) recs"
proof (induction recs arbitrary: filepaths s)
  case Nil
  then show ?case by (simp add: ret_def)
next
  case (Cons r recs)
  from Cons.prems obtain p b sp rid s1 where
    p: "py_getitem r ''path'' = Inr p" and b: "os_path_basename p = Inr b"
    and rest: "download_each E dir pre recs (filepaths @ [dir @ pre @ b]) s1 = (Inr paths, s')"
    unfolding download_each.simps bind_Inr lift_Inr by auto
  from b obtain q where q: "p = JStr q" "b = basename q" by (cases p) auto
  from p q have "local_path dir pre r = dir @ pre @ b" by (simp add: local_path_def)
  with Cons.IH[OF rest] show ?case by simp
qed

text \<open>
  C4. When \<^verbatim>\<open>download_job_outputs\<close> (\<^verbatim>\<open>download_job_logs\<close>) returns a list of paths,
  the list is as long as the list of records that the listing call returned, and the path
  at each position is the local path of the record at that position.
\<close>

theorem paths_follow_records:
  "(download_job_outputs E job_id outdir s = (Inr paths, s')
      \<and> get_output_data E job_id s = (Inr outputs, s1)
      \<and> py_getitem outputs ''results'' = Inr res \<and> py_iter res = Inr recs \<longrightarrow>
      length paths = length recs
      \<and> (\<forall>i < length recs. paths ! i = local_path outdir ''/'' (recs ! i)))
   \<and> (download_job_logs E job_id logdir s = (Inr paths', s'')
      \<and> get_log_data E job_id s = (Inr logs, s2)
      \<and> py_getitem logs ''results'' = Inr res' \<and> py_iter res' = Inr recs' \<longrightarrow>
      length paths' = length recs'
      \<and> (\<forall>i < length recs'. paths' ! i = local_path logdir ''/joblog_'' (recs' ! i)))"
proof (intro conjI impI)
  assume a: "download_job_outputs E job_id outdir s = (Inr paths, s')
      \<and> get_output_data E job_id s = (Inr outputs, s1)
      \<and> py_getitem outputs ''results'' = Inr res \<and> py_iter res = Inr recs"
  then have "download_each E outdir ''/'' recs [] s1 = (Inr paths, s')"
    by (elim conjE) (simp add: download_job_outputs_def bind_def lift_def)
  from download_each_paths[OF this] have "paths = map (local_path outdir ''/'') recs" by simp
  then show "length paths = length recs"
    and "\<forall>i < length recs. paths ! i = local_path outdir ''/'' (recs ! i)" by simp_all
next
  assume a: "download_job_logs E job_id logdir s = (Inr paths', s'')
      \<and> get_log_data E job_id s = (Inr logs, s2)
      \<and> py_getitem logs ''results'' = Inr res' \<and> py_iter res' = Inr recs'"
  then have "download_each E logdir ''/joblog_'' recs' [] s2 = (Inr paths', s'')"
    by (elim conjE) (simp add: download_job_logs_def bind_def lift_def)
  from download_each_paths[OF this] have "paths' = map (local_path logdir ''/joblog_'') recs'" by simp
  then show "length paths' = length recs'"
    and "\<forall>i < length recs'. paths' ! i = local_path logdir ''/joblog_'' (recs' ! i)" by simp_all
qed

lemma demo_logs:
  "download_job_logs demo (JStr ''job1'') ''.logs'' client1 =
     (Inr [''.logs/joblog_stdout.txt'', ''.logs/joblog_stderr.txt''], client3)"
  by (simp add: download_job_logs_def get_log_data_def download_file_def
      get_download_url_for_resource_def download_file_from_signed_url_def
      io_defs demo_defs bearer_def logs_request_def download_url_request_def signed_get_def
      client3_def client1_def basename_def iter_content.simps Let_def)

lemma demo_outputs:
  "download_job_outputs demo (JStr ''job1'') ''.outputs'' client1 =
     (Inr [''.outputs/planeWithTrees.usd''], client4)"
  by (simp add: download_job_outputs_def get_output_data_def download_file_def
      get_download_url_for_resource_def download_file_from_signed_url_def
      io_defs demo_defs bearer_def outputs_request_def download_url_request_def signed_get_def
      client4_def client1_def basename_def iter_content.simps Let_def)

lemma demo_get_log_data:
  "get_log_data demo (JStr ''job1'') client1 =
     (Inr (JObj [(''results'',
          JArr [artifact ''r1'' ''logs/stdout.txt'', artifact ''r2'' ''logs/stderr.txt''])]),
      client1\<lparr>trace := trace client1 @ [Sent logs_request]\<rparr>)"
  by (simp add: get_log_data_def io_defs demo_def demo_net_def json_response_def api_def
      bearer_def logs_request_def client1_def Let_def)

lemma demo_get_output_data:
  "get_output_data demo (JStr ''job1'') client1 =
     (Inr (JObj [(''results'', JArr [artifact ''r3'' ''out/planeWithTrees.usd''])]),
      client1\<lparr>trace := trace client1 @ [Sent outputs_request]\<rparr>)"
  by (simp add: get_output_data_def io_defs demo_def demo_net_def json_response_def api_def
      bearer_def outputs_request_def client1_def Let_def)

theorem paths_follow_records_witness:
  "download_job_outputs demo (JStr ''job1'') ''.outputs'' client1 =
     (Inr [''.outputs/planeWithTrees.usd''], client4)
   \<and> [''.outputs/planeWithTrees.usd''] ! 0
       = local_path ''.outputs'' ''/'' (artifact ''r3'' ''out/planeWithTrees.usd'')
   \<and> download_job_logs demo (JStr ''job1'') ''.logs'' client1 =
     (Inr [''.logs/joblog_stdout.txt'', ''.logs/joblog_stderr.txt''], client3)
   \<and> [''.logs/joblog_stdout.txt'', ''.logs/joblog_stderr.txt''] ! 0
       = local_path ''.logs'' ''/joblog_'' (artifact ''r1'' ''logs/stdout.txt'')
   \<and> [''.logs/joblog_stdout.txt'', ''.logs/joblog_stderr.txt''] ! 1
       = local_path ''.logs'' ''/joblog_'' (artifact ''r2'' ''logs/stderr.txt'')"
proof -
  have ro: "py_getitem (JObj [(''results'', JArr [artifact ''r3'' ''out/planeWithTrees.usd''])])
              ''results'' = Inr (JArr [artifact ''r3'' ''out/planeWithTrees.usd''])"
    and io: "py_iter (JArr [artifact ''r3'' ''out/planeWithTrees.usd''])
              = Inr [artifact ''r3'' ''out/planeWithTrees.usd'']"
    and rl: "py_getitem (JObj [(''results'',
          JArr [artifact ''r1'' ''logs/stdout.txt'', artifact ''r2'' ''logs/stderr.txt''])])
              ''results''
             = Inr (JArr [artifact ''r1'' ''logs/stdout.txt'', artifact ''r2'' ''logs/stderr.txt''])"
    and il: "py_iter (JArr [artifact ''r1'' ''logs/stdout.txt'', artifact ''r2'' ''logs/stderr.txt''])
             = Inr [artifact ''r1'' ''logs/stdout.txt'', artifact ''r2'' ''logs/stderr.txt'']"
    by simp_all
  note T = paths_follow_records[where E = demo and job_id = "JStr ''job1''" and s = client1
      and outdir = "''.outputs''" and logdir = "''.logs''"]
  from T[THEN conjunct1, THEN mp, OF conjI[OF demo_outputs conjI[OF demo_get_output_data conjI[OF ro io]]]]
  have o: "\<forall>i<length [artifact ''r3'' ''out/planeWithTrees.usd''].
             [''.outputs/planeWithTrees.usd''] ! i
               = local_path ''.outputs'' ''/'' ([artifact ''r3'' ''out/planeWithTrees.usd''] ! i)"
    by (elim conjE)
  from T[THEN conjunct2, THEN mp, OF conjI[OF demo_logs conjI[OF demo_get_log_data conjI[OF rl il]]]]
  have l: "\<forall>i<length [artifact ''r1'' ''logs/stdout.txt'', artifact ''r2'' ''logs/stderr.txt''].
             [''.logs/joblog_stdout.txt'', ''.logs/joblog_stderr.txt''] ! i
               = local_path ''.logs'' ''/joblog_''
                   ([artifact ''r1'' ''logs/stdout.txt'', artifact ''r2'' ''logs/stderr.txt''] ! i)"
    by (elim conjE)
  from o have o0: "[''.outputs/planeWithTrees.usd''] ! 0
       = local_path ''.outputs'' ''/'' (artifact ''r3'' ''out/planeWithTrees.usd'')"
    by (drule_tac x = 0 in spec) simp
  from l have l0: "[''.logs/joblog_stdout.txt'', ''.logs/joblog_stderr.txt''] ! 0
       = local_path ''.logs'' ''/joblog_'' (artifact ''r1'' ''logs/stdout.txt'')"
    by (drule_tac x = 0 in spec) simp
  from l have l1: "[''.logs/joblog_stdout.txt'', ''.logs/joblog_stderr.txt''] ! 1
       = local_path ''.logs'' ''/joblog_'' (artifact ''r2'' ''logs/stderr.txt'')"
    by (drule_tac x = 1 in spec) simp
  from demo_outputs o0 demo_logs l0 l1 show ?thesis by (intro conjI)
qed

lemma foldl_append: "foldl (@) acc xs = acc @ concat xs"
  by (induction xs arbitrary: acc) simp_all

lemma concat_iter_content: "0 < n \<Longrightarrow> concat (iter_content n bs) = bs"
proof (induction n bs rule: iter_content.induct)
  case (1 n bs)
  show ?case
  proof (cases "bs = []")
    case True
    then show ?thesis by (simp add: iter_content.simps)
  next
    case False
    with 1 have "concat (iter_content n (drop n bs)) = drop n bs" by simp
    with False 1(2) show ?thesis
      by (subst iter_content.simps) simp
  qed
qed

lemma write_chunks_iter_content:
  "0 < n \<Longrightarrow> write_chunks E path (iter_content n bs) s =
     (if can_write E path then (Inr (), s\<lparr>files := (files s)(path \<mapsto> bs)\<rparr>)
      else (Inl (OSError path), s))"
  by (simp add: write_chunks_def foldl_append concat_iter_content)

lemma download_file_from_signed_url_eq:
  assumes "net E (trace s) (signed_get u) = Response r"
  shows "download_file_from_signed_url E u dest 8192 s =
     (if status_code r = 200
      then (if can_write E dest
            then (Inr (), s\<lparr>trace := trace s @ [Sent (signed_get u)],
                             files := (files s)(dest \<mapsto> content r)\<rparr>)
            else (Inl (OSError dest), s\<lparr>trace := trace s @ [Sent (signed_get u)]\<rparr>))
      else (Inr (), s\<lparr>trace := trace s @ [Sent (signed_get u)]\<rparr>))"
  using assms
  by (simp add: download_file_from_signed_url_def requests_get_def send_def bind_def ret_def
      signed_get_def Let_def write_chunks_iter_content)

lemma get_download_url_for_resource_files:
  "get_download_url_for_resource E space_id rid s = (r, s1) \<Longrightarrow> files s1 = files s"
  by (auto simp: get_download_url_for_resource_def requests_get_def io_defs Let_def
      split: option.splits reply.splits)

text \<open>
  C2 (as the code has it). \<^verbatim>\<open>download_file\<close> does not look at the status of the
  signed-URL response to raise: once the download URL has been resolved and the signed
  URL answers, a status other than 200 makes it return normally, the local files being
  what they were, and the status 200 makes it write the whole body to the destination
  (when the destination can be opened for writing).
\<close>

theorem download_file_ignores_status:
  "get_download_url_for_resource E space_id resource_id s = (Inr signedUrl, s1)
   \<and> py_getitem signedUrl ''url'' = Inr u
   \<and> net E (trace s1) (signed_get u) = Response r \<longrightarrow>
     (status_code r \<noteq> 200 \<longrightarrow>
        download_file E space_id resource_id dest s
          = (Inr (), s1\<lparr>trace := trace s1 @ [Sent (signed_get u)]\<rparr>)
        \<and> files s1 = files s)
   \<and> (status_code r = 200 \<and> can_write E dest \<longrightarrow>
        download_file E space_id resource_id dest s
          = (Inr (), s1\<lparr>trace := trace s1 @ [Sent (signed_get u)],
                           files := (files s)(dest \<mapsto> content r)\<rparr>))"
proof (intro impI)
  assume a: "get_download_url_for_resource E space_id resource_id s = (Inr signedUrl, s1)
   \<and> py_getitem signedUrl ''url'' = Inr u
   \<and> net E (trace s1) (signed_get u) = Response r"
  then have f: "files s1 = files s" using get_download_url_for_resource_files by blast
  from a have d: "download_file E space_id resource_id dest s
      = download_file_from_signed_url E u dest 8192 s1"
    by (simp add: download_file_def bind_def lift_def)
  from a have n: "net E (trace s1) (signed_get u) = Response r" by (elim conjE)
  show "(status_code r \<noteq> 200 \<longrightarrow>
        download_file E space_id resource_id dest s
          = (Inr (), s1\<lparr>trace := trace s1 @ [Sent (signed_get u)]\<rparr>)
        \<and> files s1 = files s)
   \<and> (status_code r = 200 \<and> can_write E dest \<longrightarrow>
        download_file E space_id resource_id dest s
          = (Inr (), s1\<lparr>trace := trace s1 @ [Sent (signed_get u)],
                           files := (files s)(dest \<mapsto> content r)\<rparr>))"
    unfolding d download_file_from_signed_url_eq[OF n] using f by simp
qed

lemma demo_download_url:
  "oauth_token s = Some (JStr ''tok'') \<Longrightarrow> trace s = tr \<Longrightarrow> rid \<in> {''r1'', ''r2'', ''r3''} \<Longrightarrow>
   get_download_url_for_resource demo (JStr ''scratch:@default'') (JStr rid) s =
     (Inr (JObj [(''url'', JStr (''https://signed.example/'' @ rid))]),
      s\<lparr>trace := tr @ [Sent (download_url_request rid)]\<rparr>)"
  by (auto simp add: get_download_url_for_resource_def io_defs demo_def demo_net_def json_response_def
      api_def bearer_def download_url_request_def Let_def)

text \<open>
  The sample service answers the signed URL of resource \<^verbatim>\<open>r2\<close> with status 404:
  \<^verbatim>\<open>download_file\<close> returns \<^verbatim>\<open>None\<close>, no exception is raised and no file exists.
\<close>

theorem download_file_raises_counterexample:
  "net demo (trace client1 @ [Sent (download_url_request ''r2'')])
       (signed_get (JStr ''https://signed.example/r2'')) = Response (raw_response 404 [] ''gone'')
   \<and> download_file demo (JStr ''scratch:@default'') (JStr ''r2'') ''.logs/joblog_stderr.txt'' client1
     = (Inr (), client1\<lparr>trace := trace client1 @
          [Sent (download_url_request ''r2''), Sent (signed_get (JStr ''https://signed.example/r2''))]\<rparr>)
   \<and> files client1 ''.logs/joblog_stderr.txt'' = None"
  by (simp add: download_file_def get_download_url_for_resource_def
      download_file_from_signed_url_def io_defs demo_defs bearer_def download_url_request_def
      signed_get_def client1_def Let_def)

theorem download_file_ignores_status_witness:
  "download_file demo (JStr ''scratch:@default'') (JStr ''r2'') ''.logs/joblog_stderr.txt'' client1
     = (Inr (), client1\<lparr>trace := trace client1 @
          [Sent (download_url_request ''r2''), Sent (signed_get (JStr ''https://signed.example/r2''))]\<rparr>)
   \<and> download_file demo (JStr ''scratch:@default'') (JStr ''r1'') ''.logs/joblog_stdout.txt'' client1
     = (Inr (), client1\<lparr>trace := trace client1 @
          [Sent (download_url_request ''r1''), Sent (signed_get (JStr ''https://signed.example/r1''))],
          files := (files client1)(''.logs/joblog_stdout.txt'' \<mapsto> ''started'')\<rparr>)"
proof -
  have u2: "get_download_url_for_resource demo (JStr ''scratch:@default'') (JStr ''r2'') client1 =
     (Inr (JObj [(''url'', JStr ''https://signed.example/r2'')]),
      client1\<lparr>trace := trace client1 @ [Sent (download_url_request ''r2'')]\<rparr>)"
    using demo_download_url[of client1 _ "''r2''", OF client1_attrs(1) refl] by simp
  have u1: "get_download_url_for_resource demo (JStr ''scratch:@default'') (JStr ''r1'') client1 =
     (Inr (JObj [(''url'', JStr ''https://signed.example/r1'')]),
      client1\<lparr>trace := trace client1 @ [Sent (download_url_request ''r1'')]\<rparr>)"
    using demo_download_url[of client1 _ "''r1''", OF client1_attrs(1) refl] by simp
  have n2: "net demo (trace (client1\<lparr>trace := trace client1 @ [Sent (download_url_request ''r2'')]\<rparr>))
       (signed_get (JStr ''https://signed.example/r2'')) = Response (raw_response 404 [] ''gone'')"
    by (simp add: demo_defs signed_get_def)
  have n1: "net demo (trace (client1\<lparr>trace := trace client1 @ [Sent (download_url_request ''r1'')]\<rparr>))
       (signed_get (JStr ''https://signed.example/r1'')) = Response (raw_response 200 [] ''started'')"
    by (simp add: demo_defs signed_get_def)
  have g: "py_getitem (JObj [(''url'', JStr ''https://signed.example/r2'')]) ''url''
             = Inr (JStr ''https://signed.example/r2'')"
     "py_getitem (JObj [(''url'', JStr ''https://signed.example/r1'')]) ''url''
             = Inr (JStr ''https://signed.example/r1'')" by simp_all
  from download_file_ignores_status[THEN mp, OF conjI[OF u2 conjI[OF g(1) n2]],
      of "''.logs/joblog_stderr.txt''"]
    download_file_ignores_status[THEN mp, OF conjI[OF u1 conjI[OF g(2) n1]],
      of "''.logs/joblog_stdout.txt''"]
  show ?thesis by (simp add: raw_response_def demo_def)
qed

section \<open>A rejected credential exchange\<close>

lemma tokenless_primitives:
  assumes "oauth_token s = None"
  shows "get_resource_upload_url E space_id rid s = (Inl AttributeError, s)"
    and "list_jobs E s = (Inl AttributeError, s)"
    and "submit_job E job_json s = (Inl AttributeError, s)"
    and "get_job_data E job_id s = (Inl AttributeError, s)"
    and "get_log_data E job_id s = (Inl AttributeError, s)"
    and "get_output_data E job_id s = (Inl AttributeError, s)"
    and "get_download_url_for_resource E space_id rid s = (Inl AttributeError, s)"
  using assms
  by (simp_all add: get_resource_upload_url_def list_jobs_def submit_job_def get_job_data_def
      get_log_data_def get_output_data_def get_download_url_for_resource_def bind_def attr_def
      split: option.splits)

lemma run_without_token:
  assumes "oauth_token s = None"
  shows "run E c s = Some (Inl AttributeError, s)"
proof (cases c)
  case (Upload_file path space_id rid)
  then show ?thesis
    by (simp add: returning_def upload_file_def bind_def
        tokenless_primitives(1)[OF assms])
next
  case List_jobs
  then show ?thesis by (simp add: returning_def tokenless_primitives(2)[OF assms])
next
  case (Submit_job j)
  then show ?thesis by (simp add: returning_def tokenless_primitives(3)[OF assms])
next
  case (Get_job_data j)
  then show ?thesis by (simp add: returning_def tokenless_primitives(4)[OF assms])
next
  case (Wait_for_job_to_complete j secs)
  have "wait_body E j secs s = Leave (Inl AttributeError, s)"
    by (simp add: wait_body_def tokenless_primitives(4)[OF assms])
  from wait_leave[OF this] Wait_for_job_to_complete show ?thesis by (simp add: returning_def)
next
  case (Download_file space_id rid dest)
  then show ?thesis
    by (simp add: returning_def download_file_def bind_def
        tokenless_primitives(7)[OF assms])
next
  case (Download_job_logs j d)
  then show ?thesis
    by (simp add: returning_def download_job_logs_def bind_def
        tokenless_primitives(5)[OF assms])
next
  case (Download_job_outputs j d)
  then show ?thesis
    by (simp add: returning_def download_job_outputs_def bind_def
        tokenless_primitives(6)[OF assms])
qed

lemma init_cases:
  assumes "py_truthy cid" "py_truthy sec" "net E tr (auth_request cid sec) = Response r"
  shows "init E cid sec qid (new_object tr fs) =
     (case json_body r of
        None \<Rightarrow> (Inl JSONDecodeError,
                  (new_object (tr @ [Sent (auth_request cid sec)]) fs)
                    \<lparr>client_id := Some cid, client_secret := Some sec\<rparr>)
      | Some j \<Rightarrow>
          (case py_getitem j ''access_token'' of
             Inl e \<Rightarrow> (Inl e, (new_object (tr @ [Sent (auth_request cid sec)]) fs)
                               \<lparr>client_id := Some cid, client_secret := Some sec\<rparr>)
           | Inr tok \<Rightarrow> (Inr (), (new_object (tr @ [Sent (auth_request cid sec)]) fs)
                               \<lparr>client_id := Some cid, client_secret := Some sec,
                                 oauth_token := Some tok, queue_id := Some qid\<rparr>)))"
  using assms
  by (simp add: init_def generate_oauth_token_def io_defs Let_def new_object_def
      auth_request_def split: option.splits sum.splits)

lemma py_getitem_errors:
  "py_getitem j k = Inl e \<Longrightarrow> e = TypeError \<or> e = KeyError (JStr k)"
  by (cases j) (auto split: option.splits)

text \<open>
  C3 (as the code has it). The constructor never looks at the status of the
  authorization response. With truthy credentials and an answer from the authorization
  endpoint, construction succeeds exactly when the body is a JSON object with an
  \<^verbatim>\<open>access_token\<close> member, whose value is then stored as the token, whatever the
  status. Otherwise it raises \<^verbatim>\<open>JSONDecodeError\<close>, \<^verbatim>\<open>TypeError\<close> or
  \<^verbatim>\<open>KeyError('access_token')\<close>, the token attribute is never set, and any method
  called on the unfinished object raises \<^verbatim>\<open>AttributeError\<close> without sending a request.
\<close>

theorem init_token_depends_on_body:
  "py_truthy cid \<and> py_truthy sec \<and> net E tr (auth_request cid sec) = Response r
   \<and> init E cid sec qid (new_object tr fs) = (res, s1) \<longrightarrow>
     (res = Inr () \<longleftrightarrow> (\<exists>j tok. json_body r = Some j \<and> py_getitem j ''access_token'' = Inr tok))
   \<and> (\<forall>j tok. json_body r = Some j \<and> py_getitem j ''access_token'' = Inr tok \<longrightarrow>
          oauth_token s1 = Some tok)
   \<and> (res \<noteq> Inr () \<longrightarrow>
          (res = Inl JSONDecodeError \<or> res = Inl TypeError
             \<or> res = Inl (KeyError (JStr ''access_token'')))
          \<and> oauth_token s1 = None
          \<and> (\<forall>c. run E c s1 = Some (Inl AttributeError, s1)))"
proof (intro impI)
  assume a: "py_truthy cid \<and> py_truthy sec \<and> net E tr (auth_request cid sec) = Response r
   \<and> init E cid sec qid (new_object tr fs) = (res, s1)"
  then have i: "init E cid sec qid (new_object tr fs) = (res, s1)" by (elim conjE)
  from a have c: "py_truthy cid" "py_truthy sec" "net E tr (auth_request cid sec) = Response r"
    by simp_all
  note eq = init_cases[OF c, of qid fs, unfolded i]
  have tokless: "\<forall>c. run E c s1 = Some (Inl AttributeError, s1)" if "oauth_token s1 = None"
    using run_without_token[OF that] by blast
  show "(res = Inr () \<longleftrightarrow> (\<exists>j tok. json_body r = Some j \<and> py_getitem j ''access_token'' = Inr tok))
   \<and> (\<forall>j tok. json_body r = Some j \<and> py_getitem j ''access_token'' = Inr tok \<longrightarrow>
          oauth_token s1 = Some tok)
   \<and> (res \<noteq> Inr () \<longrightarrow>
          (res = Inl JSONDecodeError \<or> res = Inl TypeError
             \<or> res = Inl (KeyError (JStr ''access_token'')))
          \<and> oauth_token s1 = None
          \<and> (\<forall>c. run E c s1 = Some (Inl AttributeError, s1)))"
  proof (cases "json_body r")
    case None
    with eq have r: "res = Inl JSONDecodeError" and "oauth_token s1 = None"
      by (simp_all add: new_object_def)
    with tokless None show ?thesis by simp
  next
    case (Some j)
    show ?thesis
    proof (cases "py_getitem j ''access_token''")
      case (Inl e)
      with eq Some have r: "res = Inl e" and t: "oauth_token s1 = None"
        by (simp_all add: new_object_def)
      from py_getitem_errors[OF Inl] r
      have "res = Inl TypeError \<or> res = Inl (KeyError (JStr ''access_token''))" by blast
      with r t tokless[OF t] Some Inl show ?thesis by auto
    next
      case (Inr tok)
      with eq Some have "res = Inr ()" "oauth_token s1 = Some tok"
        by (simp_all add: new_object_def)
      with Some Inr show ?thesis by simp
    qed
  qed
qed

text \<open>
  A 401 answer whose body carries an \<^verbatim>\<open>access_token\<close>: construction succeeds and that
  token is stored.
\<close>

theorem init_raises_on_401_counterexample:
  "net stale [] (auth_request (JStr ''id'') (JStr ''secret''))
     = Response (json_response 401 (JObj [(''access_token'', JStr ''old'')]))
   \<and> fst (init stale (JStr ''id'') (JStr ''secret'') (JStr ''@default'') client0) = Inr ()
   \<and> oauth_token (snd (init stale (JStr ''id'') (JStr ''secret'') (JStr ''@default'') client0))
       = Some (JStr ''old'')"
  by (simp add: init_def generate_oauth_token_def io_defs stale_def client0_def new_object_def
      json_response_def Let_def auth_request_def)

lemma demo_rejected:
  "init demo (JStr ''id'') (JStr ''wrong'') (JStr ''@default'')
     (new_object [] [''plane.usd'' \<mapsto> ''usda''])
   = (Inl (KeyError (JStr ''access_token'')), rejected)"
  by (simp add: init_def generate_oauth_token_def io_defs demo_def demo_net_def new_object_def
      json_response_def Let_def auth_request_def api_def rejected_def)

theorem init_token_depends_on_body_witness:
  "init demo (JStr ''id'') (JStr ''wrong'') (JStr ''@default'')
     (new_object [] [''plane.usd'' \<mapsto> ''usda''])
   = (Inl (KeyError (JStr ''access_token'')), rejected)
   \<and> oauth_token rejected = None
   \<and> run demo List_jobs rejected = Some (Inl AttributeError, rejected)
   \<and> run demo (Get_job_data (JStr ''job1'')) rejected = Some (Inl AttributeError, rejected)"
proof -
  have n: "net demo [] (auth_request (JStr ''id'') (JStr ''wrong''))
     = Response (json_response 401 (JObj [(''developerMessage'', JStr ''bad credentials'')]))"
    by (simp add: demo_def demo_net_def api_def auth_request_def)
  have t: "py_truthy (JStr ''id'')" "py_truthy (JStr ''wrong'')" by simp_all
  from init_token_depends_on_body[THEN mp, OF conjI[OF t(1) conjI[OF t(2) conjI[OF n demo_rejected]]]]
  have "oauth_token rejected = None \<and> (\<forall>c. run demo c rejected = Some (Inl AttributeError, rejected))"
    by simp
  with demo_rejected show ?thesis by blast
qed

section \<open>What the log download writes\<close>

lemma signed_download_files:
  assumes "download_file_from_signed_url E u dest 8192 s = (res, s')"
  shows "(\<forall>p. p \<noteq> dest \<longrightarrow> files s' p = files s p)
       \<and> (\<forall>p. files s p \<noteq> None \<longrightarrow> files s' p \<noteq> None)
       \<and> ((\<forall>tr rq. stream rq \<longrightarrow> (\<exists>r. net E tr rq = Response r \<and> status_code r = 200))
            \<and> res = Inr () \<longrightarrow> files s' dest \<noteq> None)"
proof (cases "net E (trace s) (signed_get u)")
  case NetError
  with assms show ?thesis
    by (auto simp: download_file_from_signed_url_def requests_get_def send_def bind_def
        signed_get_def Let_def)
next
  case (Response r)
  have st: "stream (signed_get u)" by (simp add: signed_get_def)
  have ok: "status_code r = 200"
    if "\<forall>tr rq. stream rq \<longrightarrow> (\<exists>r. net E tr rq = Response r \<and> status_code r = 200)"
  proof -
    from that st obtain r' where "net E (trace s) (signed_get u) = Response r'"
      "status_code r' = 200" by blast
    with Response show ?thesis by simp
  qed
  from assms[unfolded download_file_from_signed_url_eq[OF Response]] ok
  show ?thesis by (auto split: if_splits)
qed

lemma download_file_files:
  assumes "download_file E space_id rid dest s = (res, s')"
  shows "(\<forall>p. p \<noteq> dest \<longrightarrow> files s' p = files s p)
       \<and> (\<forall>p. files s p \<noteq> None \<longrightarrow> files s' p \<noteq> None)
       \<and> ((\<forall>tr rq. stream rq \<longrightarrow> (\<exists>r. net E tr rq = Response r \<and> status_code r = 200))
            \<and> res = Inr () \<longrightarrow> files s' dest \<noteq> None)"
proof -
  obtain r1 s1 where g: "get_download_url_for_resource E space_id rid s = (r1, s1)"
    by (cases "get_download_url_for_resource E space_id rid s")
  from get_download_url_for_resource_files[OF g] have f: "files s1 = files s" .
  show ?thesis
  proof (cases r1)
    case (Inl e)
    with assms g f show ?thesis by (auto simp: download_file_def bind_def)
  next
    case (Inr su)
    show ?thesis
    proof (cases "py_getitem su ''url''")
      case (Inl e)
      with assms g f Inr show ?thesis by (auto simp: download_file_def bind_def lift_def)
    next
      case u: (Inr u)
      with assms g Inr have "download_file_from_signed_url E u dest 8192 s1 = (res, s')"
        by (simp add: download_file_def bind_def lift_def)
      from signed_download_files[OF this] f show ?thesis by simp
    qed
  qed
qed

lemma download_each_files:
  assumes "download_each E dir pre recs filepaths s = (Inr paths, s')"
  shows "(\<forall>p. p \<notin> set (map (local_path dir pre) recs) \<longrightarrow> files s' p = files s p)
       \<and> (\<forall>p. files s p \<noteq> None \<longrightarrow> files s' p \<noteq> None)
       \<and> ((\<forall>tr rq. stream rq \<longrightarrow> (\<exists>r. net E tr rq = Response r \<and> status_code r = 200))
            \<longrightarrow> (\<forall>p \<in> set (map (local_path dir pre) recs). files s' p \<noteq> None))"
  using assms
proof (induction recs arbitrary: filepaths s)
  case Nil
  then show ?case by (simp add: ret_def)
next
  case (Cons r recs)
  from Cons.prems obtain p b sp rid s1 where
    p: "py_getitem r ''path'' = Inr p" and b: "os_path_basename p = Inr b"
    and d: "download_file E sp rid (dir @ pre @ b) s = (Inr (), s1)"
    and rest: "download_each E dir pre recs (filepaths @ [dir @ pre @ b]) s1 = (Inr paths, s')"
    unfolding download_each.simps bind_Inr lift_Inr by auto
  from b obtain q where q: "p = JStr q" "b = basename q" by (cases p) auto
  from p q have lp: "local_path dir pre r = dir @ pre @ b" by (simp add: local_path_def)
  note D = download_file_files[OF d]
  note R = Cons.IH[OF rest]
  show ?case
  proof (intro conjI allI impI ballI)
    fix x assume "x \<notin> set (map (local_path dir pre) (r # recs))"
    then have "x \<noteq> dir @ pre @ b" "x \<notin> set (map (local_path dir pre) recs)"
      using lp by auto
    with D R show "files s' x = files s x" by simp
  next
    fix x assume "files s x \<noteq> None"
    with D have "files s1 x \<noteq> None" by blast
    with R show "files s' x \<noteq> None" by blast
  next
    fix x
    assume ok: "\<forall>tr rq. stream rq \<longrightarrow> (\<exists>r. net E tr rq = Response r \<and> status_code r = 200)"
      and x: "x \<in> set (map (local_path dir pre) (r # recs))"
    show "files s' x \<noteq> None"
    proof (cases "x \<in> set (map (local_path dir pre) recs)")
      case True
      with R ok show ?thesis by blast
    next
      case False
      with x lp have "x = dir @ pre @ b" by auto
      with D ok have "files s1 x \<noteq> None" by blast
      with R show ?thesis by blast
    qed
  qed
qed

lemma bind_assoc: "bind (bind m f) g = bind m (\<lambda>x. bind (f x) g)"
  by (auto simp: bind_def fun_eq_iff split: prod.splits sum.splits)

lemma bind_ret: "bind (ret x) f = f x"
  by (simp add: bind_def ret_def fun_eq_iff)

lemma download_each_append:
  "download_each E dir pre (xs @ ys) acc
     = bind (download_each E dir pre xs acc) (download_each E dir pre ys)"
proof (induction xs arbitrary: acc)
  case Nil
  show ?case by (simp add: bind_ret)
next
  case (Cons x xs)
  show ?case by (simp add: bind_assoc Cons.IH)
qed

lemma download_each_split:
  assumes "download_each E dir pre (xs @ ys) [] s = (Inr paths, s')"
  obtains acc sm where "download_each E dir pre xs [] s = (Inr acc, sm)"
    and "download_each E dir pre ys acc sm = (Inr paths, s')"
  using assms unfolding download_each_append bind_Inr by blast

lemma download_each_one:
  assumes "download_each E dir pre [r] acc s = (Inr acc', s2)"
  shows "\<exists>space_id rid.
      py_getitem r ''spaceId'' = Inr space_id \<and> py_getitem r ''resourceId'' = Inr rid
    \<and> download_file E space_id rid (local_path dir pre r) s = (Inr (), s2)"
proof -
  from assms obtain p b sp rid where
    p: "py_getitem r ''path'' = Inr p" and b: "os_path_basename p = Inr b"
    and i: "py_getitem r ''spaceId'' = Inr sp" "py_getitem r ''resourceId'' = Inr rid"
    and d: "download_file E sp rid (dir @ pre @ b) s = (Inr (), s2)"
    unfolding download_each.simps bind_Inr lift_Inr ret_def by auto
  from b obtain q where q: "p = JStr q" "b = basename q" by (cases p) auto
  from p q have "local_path dir pre r = dir @ pre @ b" by (simp add: local_path_def)
  with i d show ?thesis by simp
qed

lemma get_download_url_for_resource_Inr:
  "get_download_url_for_resource E space_id rid s = (Inr j, s') \<longleftrightarrow>
     (\<exists>tok r. oauth_token s = Some tok
        \<and> net E (trace s) (resource_download_request tok space_id rid) = Response r
        \<and> json_body r = Some j
        \<and> s' = s\<lparr>trace := trace s @ [Sent (resource_download_request tok space_id rid)]\<rparr>)"
  by (auto simp: get_download_url_for_resource_def requests_get_def resource_download_request_def
      bearer_def Inr_simps)

lemma download_file_Inr:
  assumes "download_file E space_id rid dest s = (Inr (), s2)"
  shows "\<exists>tok r1 signedUrl u r.
      oauth_token s = Some tok
    \<and> net E (trace s) (resource_download_request tok space_id rid) = Response r1
    \<and> json_body r1 = Some signedUrl \<and> py_getitem signedUrl ''url'' = Inr u
    \<and> net E (trace s @ [Sent (resource_download_request tok space_id rid)]) (signed_get u)
        = Response r
    \<and> trace s2 = trace s @ [Sent (resource_download_request tok space_id rid), Sent (signed_get u)]
    \<and> files s2 = (if status_code r = 200 then (files s)(dest \<mapsto> content r) else files s)"
proof -
  from assms obtain su sm u where
    g: "get_download_url_for_resource E space_id rid s = (Inr su, sm)"
    and u: "py_getitem su ''url'' = Inr u"
    and d: "download_file_from_signed_url E u dest 8192 sm = (Inr (), s2)"
    unfolding download_file_def bind_Inr lift_Inr by auto
  from g obtain tok r1 where t: "oauth_token s = Some tok"
    and n1: "net E (trace s) (resource_download_request tok space_id rid) = Response r1"
    and j: "json_body r1 = Some su"
    and sm: "sm = s\<lparr>trace := trace s @ [Sent (resource_download_request tok space_id rid)]\<rparr>"
    unfolding get_download_url_for_resource_Inr by auto
  obtain r where n2: "net E (trace sm) (signed_get u) = Response r"
  proof (cases "net E (trace sm) (signed_get u)")
    case NetError
    with d show ?thesis
      by (simp add: download_file_from_signed_url_def requests_get_def send_def bind_def
          signed_get_def Let_def)
  next
    case (Response r)
    with that show ?thesis by blast
  qed
  from d[unfolded download_file_from_signed_url_eq[OF n2]]
  have "trace s2 = trace sm @ [Sent (signed_get u)]"
    and "files s2 = (if status_code r = 200 then (files sm)(dest \<mapsto> content r) else files sm)"
    by (auto split: if_splits)
  with t n1 j u n2 sm show ?thesis
    by (intro exI[of _ tok] exI[of _ r1] exI[of _ su] exI[of _ u] exI[of _ r]) simp
qed


lemma download_each_record:
  assumes run: "download_each E dir pre recs [] s1 = (Inr paths, s')" and i: "i < length recs"
  shows "\<exists>space_id rid tok r1 signedUrl u r.
            py_getitem (recs ! i) ''spaceId'' = Inr space_id
          \<and> py_getitem (recs ! i) ''resourceId'' = Inr rid
          \<and> oauth_token s1 = Some tok
          \<and> net E (trace (after_records E dir pre recs i s1))
                (resource_download_request tok space_id rid) = Response r1
          \<and> json_body r1 = Some signedUrl \<and> py_getitem signedUrl ''url'' = Inr u
          \<and> net E (trace (after_records E dir pre recs i s1)
                      @ [Sent (resource_download_request tok space_id rid)])
                (signed_get u) = Response r
          \<and> trace (after_records E dir pre recs (Suc i) s1)
              = trace (after_records E dir pre recs i s1)
                  @ [Sent (resource_download_request tok space_id rid), Sent (signed_get u)]
          \<and> files (after_records E dir pre recs (Suc i) s1)
              = (if status_code r = 200
                 then (files (after_records E dir pre recs i s1))
                        (local_path dir pre (recs ! i) \<mapsto> content r)
                 else files (after_records E dir pre recs i s1))"
proof -
  have "recs = take (Suc i) recs @ drop (Suc i) recs" by simp
  with run have "download_each E dir pre (take (Suc i) recs @ drop (Suc i) recs) [] s1
                   = (Inr paths, s')" by simp
  then obtain acc1 sm1 where a1: "download_each E dir pre (take (Suc i) recs) [] s1 = (Inr acc1, sm1)"
    by (rule download_each_split)
  from i have t: "take (Suc i) recs = take i recs @ [recs ! i]"
    by (rule take_Suc_conv_app_nth)
  from a1[unfolded t] obtain acc0 si where
    a0: "download_each E dir pre (take i recs) [] s1 = (Inr acc0, si)"
    and o: "download_each E dir pre [recs ! i] acc0 si = (Inr acc1, sm1)"
    by (rule download_each_split)
  from a0 have si: "after_records E dir pre recs i s1 = si" by (simp add: after_records_def)
  from a1 have sm1: "after_records E dir pre recs (Suc i) s1 = sm1"
    by (simp add: after_records_def)
  from keeps_download_each[of E dir pre "take i recs" "[]" s1] a0
  have "steps s1 si" by (simp add: keeps_def)
  then have tok: "oauth_token si = oauth_token s1" by (simp add: steps_def self_attrs_def)
  from download_each_one[OF o] obtain space_id rid where
    ids: "py_getitem (recs ! i) ''spaceId'' = Inr space_id"
         "py_getitem (recs ! i) ''resourceId'' = Inr rid"
    and d: "download_file E space_id rid (local_path dir pre (recs ! i)) si = (Inr (), sm1)"
    by blast
  from download_file_Inr[OF d] obtain tok' r1 signedUrl u r where
    "oauth_token si = Some tok'"
    "net E (trace si) (resource_download_request tok' space_id rid) = Response r1"
    "json_body r1 = Some signedUrl" "py_getitem signedUrl ''url'' = Inr u"
    "net E (trace si @ [Sent (resource_download_request tok' space_id rid)]) (signed_get u)
        = Response r"
    "trace sm1 = trace si @ [Sent (resource_download_request tok' space_id rid), Sent (signed_get u)]"
    "files sm1 = (if status_code r = 200
                  then (files si)(local_path dir pre (recs ! i) \<mapsto> content r) else files si)"
    by blast
  with ids tok show ?thesis unfolding si sm1
    by (intro exI[of _ space_id] exI[of _ rid] exI[of _ tok'] exI[of _ r1] exI[of _ signedUrl]
        exI[of _ u] exI[of _ r]) simp
qed

text \<open>
  C5 (as the code has it). When \<^verbatim>\<open>download_job_logs\<close> returns, it returns, for the
  listed log records in order, the paths made of the target directory, \<^verbatim>\<open>/joblog_\<close>
  and the basename of the record's path, and no file other than these paths has been
  touched. The records are handled in order, and in its round each record has the
  download URL of its space and resource resolved and the signed URL fetched: when that
  is answered with status 200 the body is written, whole, to the record's path, and
  with any other status the files stay as they were, the path being returned all the
  same.
\<close>

theorem download_job_logs_writes_joblog_files:
  "download_job_logs E job_id logdir s = (Inr paths, s')
   \<and> get_log_data E job_id s = (Inr logs, s1)
   \<and> py_getitem logs ''results'' = Inr res \<and> py_iter res = Inr recs \<longrightarrow>
     paths = map (local_path logdir ''/joblog_'') recs
   \<and> (\<forall>p. p \<notin> set paths \<longrightarrow> files s' p = files s p)
   \<and> files (after_records E logdir ''/joblog_'' recs 0 s1) = files s
   \<and> after_records E logdir ''/joblog_'' recs (length recs) s1 = s'
   \<and> (\<forall>i < length recs. (\<exists>space_id rid tok r1 signedUrl u r.
            py_getitem (recs ! i) ''spaceId'' = Inr space_id
          \<and> py_getitem (recs ! i) ''resourceId'' = Inr rid
          \<and> oauth_token s = Some tok
          \<and> net E (trace (after_records E logdir ''/joblog_'' recs i s1))
                (resource_download_request tok space_id rid) = Response r1
          \<and> json_body r1 = Some signedUrl \<and> py_getitem signedUrl ''url'' = Inr u
          \<and> net E (trace (after_records E logdir ''/joblog_'' recs i s1)
                      @ [Sent (resource_download_request tok space_id rid)])
                (signed_get u) = Response r
          \<and> trace (after_records E logdir ''/joblog_'' recs (Suc i) s1)
              = trace (after_records E logdir ''/joblog_'' recs i s1)
                  @ [Sent (resource_download_request tok space_id rid), Sent (signed_get u)]
          \<and> files (after_records E logdir ''/joblog_'' recs (Suc i) s1)
              = (if status_code r = 200
                 then (files (after_records E logdir ''/joblog_'' recs i s1))
                        (paths ! i \<mapsto> content r)
                 else files (after_records E logdir ''/joblog_'' recs i s1))))"
proof (intro impI)
  assume a: "download_job_logs E job_id logdir s = (Inr paths, s')
   \<and> get_log_data E job_id s = (Inr logs, s1)
   \<and> py_getitem logs ''results'' = Inr res \<and> py_iter res = Inr recs"
  then have e: "download_each E logdir ''/joblog_'' recs [] s1 = (Inr paths, s')"
    by (elim conjE) (simp add: download_job_logs_def bind_def lift_def)
  from a have g: "get_log_data E job_id s = (Inr logs, s1)" by simp
  then have f: "files s1 = files s"
    by (auto simp: get_log_data_def requests_get_def io_defs Let_def
        split: option.splits reply.splits)
  from keeps_get_log_data[of E job_id s] g have "steps s s1" by (simp add: keeps_def)
  then have tok: "oauth_token s1 = oauth_token s" by (simp add: steps_def self_attrs_def)
  from download_each_paths[OF e] have ps: "paths = map (local_path logdir ''/joblog_'') recs"
    by simp
  from download_each_files[OF e] f ps
  have fr: "\<forall>p. p \<notin> set paths \<longrightarrow> files s' p = files s p" by simp
  have z: "files (after_records E logdir ''/joblog_'' recs 0 s1) = files s"
    using f by (simp add: after_records_def ret_def)
  have n: "after_records E logdir ''/joblog_'' recs (length recs) s1 = s'"
    using e by (simp add: after_records_def)
  have r: "\<forall>i < length recs. (\<exists>space_id rid tok r1 signedUrl u r.
            py_getitem (recs ! i) ''spaceId'' = Inr space_id
          \<and> py_getitem (recs ! i) ''resourceId'' = Inr rid
          \<and> oauth_token s = Some tok
          \<and> net E (trace (after_records E logdir ''/joblog_'' recs i s1))
                (resource_download_request tok space_id rid) = Response r1
          \<and> json_body r1 = Some signedUrl \<and> py_getitem signedUrl ''url'' = Inr u
          \<and> net E (trace (after_records E logdir ''/joblog_'' recs i s1)
                      @ [Sent (resource_download_request tok space_id rid)])
                (signed_get u) = Response r
          \<and> trace (after_records E logdir ''/joblog_'' recs (Suc i) s1)
              = trace (after_records E logdir ''/joblog_'' recs i s1)
                  @ [Sent (resource_download_request tok space_id rid), Sent (signed_get u)]
          \<and> files (after_records E logdir ''/joblog_'' recs (Suc i) s1)
              = (if status_code r = 200
                 then (files (after_records E logdir ''/joblog_'' recs i s1))
                        (paths ! i \<mapsto> content r)
                 else files (after_records E logdir ''/joblog_'' recs i s1)))"
  proof (intro allI impI)
    fix i assume i: "i < length recs"
    with ps have pi: "paths ! i = local_path logdir ''/joblog_'' (recs ! i)" by simp
    from download_each_record[OF e i] show "(\<exists>space_id rid tok r1 signedUrl u r.
            py_getitem (recs ! i) ''spaceId'' = Inr space_id
          \<and> py_getitem (recs ! i) ''resourceId'' = Inr rid
          \<and> oauth_token s = Some tok
          \<and> net E (trace (after_records E logdir ''/joblog_'' recs i s1))
                (resource_download_request tok space_id rid) = Response r1
          \<and> json_body r1 = Some signedUrl \<and> py_getitem signedUrl ''url'' = Inr u
          \<and> net E (trace (after_records E logdir ''/joblog_'' recs i s1)
                      @ [Sent (resource_download_request tok space_id rid)])
                (signed_get u) = Response r
          \<and> trace (after_records E logdir ''/joblog_'' recs (Suc i) s1)
              = trace (after_records E logdir ''/joblog_'' recs i s1)
                  @ [Sent (resource_download_request tok space_id rid), Sent (signed_get u)]
          \<and> files (after_records E logdir ''/joblog_'' recs (Suc i) s1)
              = (if status_code r = 200
                 then (files (after_records E logdir ''/joblog_'' recs i s1))
                        (paths ! i \<mapsto> content r)
                 else files (after_records E logdir ''/joblog_'' recs i s1)))"
      unfolding pi tok .
  qed
  from ps fr z n r
  show "paths = map (local_path logdir ''/joblog_'') recs
   \<and> (\<forall>p. p \<notin> set paths \<longrightarrow> files s' p = files s p)
   \<and> files (after_records E logdir ''/joblog_'' recs 0 s1) = files s
   \<and> after_records E logdir ''/joblog_'' recs (length recs) s1 = s'
   \<and> (\<forall>i < length recs. (\<exists>space_id rid tok r1 signedUrl u r.
            py_getitem (recs ! i) ''spaceId'' = Inr space_id
          \<and> py_getitem (recs ! i) ''resourceId'' = Inr rid
          \<and> oauth_token s = Some tok
          \<and> net E (trace (after_records E logdir ''/joblog_'' recs i s1))
                (resource_download_request tok space_id rid) = Response r1
          \<and> json_body r1 = Some signedUrl \<and> py_getitem signedUrl ''url'' = Inr u
          \<and> net E (trace (after_records E logdir ''/joblog_'' recs i s1)
                      @ [Sent (resource_download_request tok space_id rid)])
                (signed_get u) = Response r
          \<and> trace (after_records E logdir ''/joblog_'' recs (Suc i) s1)
              = trace (after_records E logdir ''/joblog_'' recs i s1)
                  @ [Sent (resource_download_request tok space_id rid), Sent (signed_get u)]
          \<and> files (after_records E logdir ''/joblog_'' recs (Suc i) s1)
              = (if status_code r = 200
                 then (files (after_records E logdir ''/joblog_'' recs i s1))
                        (paths ! i \<mapsto> content r)
                 else files (after_records E logdir ''/joblog_'' recs i s1))))"
    by (intro conjI)
qed

text \<open>
  On the sample service the two logs of \<^verbatim>\<open>job1\<close> are not stored under their basenames
  but under \<^verbatim>\<open>joblog_\<close> names, and the second path is returned although nothing was
  written there (its download was answered 404).
\<close>

theorem download_job_logs_basename_counterexample:
  "download_job_logs demo (JStr ''job1'') ''.logs'' client1 =
     (Inr [''.logs/joblog_stdout.txt'', ''.logs/joblog_stderr.txt''], client3)
   \<and> files client3 ''.logs/stdout.txt'' = None
   \<and> files client3 ''.logs/stderr.txt'' = None
   \<and> files client3 ''.logs/joblog_stdout.txt'' = Some ''started''
   \<and> files client3 ''.logs/joblog_stderr.txt'' = None"
  using demo_logs by (simp add: client3_def client1_def)

theorem download_job_logs_writes_joblog_files_witness:
  "download_job_logs demo (JStr ''job1'') ''.logs'' client1 =
     (Inr [''.logs/joblog_stdout.txt'', ''.logs/joblog_stderr.txt''], client3)
   \<and> [''.logs/joblog_stdout.txt'', ''.logs/joblog_stderr.txt'']
       = map (local_path ''.logs'' ''/joblog_'')
           [artifact ''r1'' ''logs/stdout.txt'', artifact ''r2'' ''logs/stderr.txt'']
   \<and> files client3 ''.logs/stdout.txt'' = files client1 ''.logs/stdout.txt''
   \<and> after_records demo ''.logs'' ''/joblog_''
         [artifact ''r1'' ''logs/stdout.txt'', artifact ''r2'' ''logs/stderr.txt'']
         (length [artifact ''r1'' ''logs/stdout.txt'', artifact ''r2'' ''logs/stderr.txt''])
         (client1\<lparr>trace := trace client1 @ [Sent logs_request]\<rparr>) = client3"
proof -
  have rl: "py_getitem (JObj [(''results'',
          JArr [artifact ''r1'' ''logs/stdout.txt'', artifact ''r2'' ''logs/stderr.txt''])])
              ''results''
             = Inr (JArr [artifact ''r1'' ''logs/stdout.txt'', artifact ''r2'' ''logs/stderr.txt''])"
    and il: "py_iter (JArr [artifact ''r1'' ''logs/stdout.txt'', artifact ''r2'' ''logs/stderr.txt''])
             = Inr [artifact ''r1'' ''logs/stdout.txt'', artifact ''r2'' ''logs/stderr.txt'']"
    by simp_all
  note T = download_job_logs_writes_joblog_files[THEN mp,
      OF conjI[OF demo_logs conjI[OF demo_get_log_data conjI[OF rl il]]]]
  from T have a: "[''.logs/joblog_stdout.txt'', ''.logs/joblog_stderr.txt'']
       = map (local_path ''.logs'' ''/joblog_'')
           [artifact ''r1'' ''logs/stdout.txt'', artifact ''r2'' ''logs/stderr.txt'']"
    by (elim conjE)
  from T have "\<forall>p. p \<notin> set [''.logs/joblog_stdout.txt'', ''.logs/joblog_stderr.txt'']
       \<longrightarrow> files client3 p = files client1 p" by (elim conjE)
  then have b: "files client3 ''.logs/stdout.txt'' = files client1 ''.logs/stdout.txt''"
    by simp
  from T have c: "after_records demo ''.logs'' ''/joblog_''
         [artifact ''r1'' ''logs/stdout.txt'', artifact ''r2'' ''logs/stderr.txt'']
         (length [artifact ''r1'' ''logs/stdout.txt'', artifact ''r2'' ''logs/stderr.txt''])
         (client1\<lparr>trace := trace client1 @ [Sent logs_request]\<rparr>) = client3"
    by (elim conjE)
  from demo_logs a b c show ?thesis by (intro conjI)
qed

end
